theory Spec2Isabelle
  imports Main "HOL-Library.Word" "HOL-Library.Monad_Syntax"
begin

section \<open>Values that cross the diagnostic facade\<close>

text \<open>
  The package \<open>diagnostic\<close> wraps a \<open>*zap.Logger\<close> in one handler struct per subsystem.
  Go's \<open>int\<close> and \<open>int64\<close> are 64-bit words, \<open>time.Duration\<close> is an \<open>int64\<close> of
  nanoseconds, \<open>time.Time\<close> is represented by its Unix time in nanoseconds. A Go
  \<open>error\<close> is an interface value: \<open>None\<close> is \<open>nil\<close>, \<open>Some d\<close> is an error whose
  \<open>Error()\<close> is \<open>d\<close>.
\<close>

type_synonym go_int = "64 word"
type_synonym go_int64 = "64 word"
type_synonym time_Time = int
type_synonym time_Duration = "64 word"
type_synonym error = "string option"

text \<open>\<open>keyvalue.T\<close>: one caller-supplied pair of a variable-length context list.\<close>

record keyvalue_T =
  Key :: string
  Value :: string

text \<open>\<open>alert.Level\<close>, passed to \<open>zap.Stringer\<close> by \<open>AlertTriggered\<close>.\<close>

datatype alert_Level = OK | Info | Warning | Critical

text \<open>
  A \<open>*models.Row\<close>, represented by what \<open>fmt.Sprintf("%v", rows)\<close> prints for it; the
  formatting itself belongs to the \<open>fmt\<close> package.
\<close>

datatype models_Row = Row string

fun fmt_Sprintf_v :: "models_Row \<Rightarrow> string" where
  "fmt_Sprintf_v (Row rendered) = rendered"

text \<open>
  A \<open>zapcore.Field\<close> is kept as the constructor call that built it: \<open>zap_String k v\<close>
  is \<open>zap.String(k, v)\<close>, and so on. \<open>Field_error d\<close> is the field \<open>error\<close> that carries
  an error whose description is \<open>d\<close>, and \<open>zap_Skip\<close> is \<open>zap.Skip()\<close>, the no-op field
  that the encoder leaves out of the record. \<open>Field_zero\<close> is the zero value
  \<open>zapcore.Field{}\<close> that \<open>make\<close> fills a fresh slice with.
\<close>

datatype Field =
    zap_String string string
  | zap_Int string go_int
  | zap_Int64 string go_int64
  | zap_Bool string bool
  | zap_Time string time_Time
  | zap_Duration string time_Duration
  | Field_error string
  | zap_Skip
  | zap_Stringer string alert_Level
  | Field_zero

text \<open>
  \<open>zap.Error(err)\<close>: for a \<open>nil\<close> error it returns \<open>zap.Skip()\<close>, so that no error field
  is written; for any other error it returns the error field.
\<close>

definition zap_Error :: "error \<Rightarrow> Field" where
  "zap_Error err = (case err of None \<Rightarrow> zap_Skip | Some d \<Rightarrow> Field_error d)"

text \<open>\<open>written fs\<close>: the fields of \<open>fs\<close> that the encoder writes, in order.\<close>

definition written :: "Field list \<Rightarrow> Field list" where
  "written fs = filter (\<lambda>f. f \<noteq> zap_Skip) fs"

datatype Level = DebugLevel | InfoLevel | WarnLevel | ErrorLevel

text \<open>
  One record written by the backend: severity, message, the fields bound to the logger
  that wrote it, and the fields of the call.
\<close>

record Entry =
  entry_level :: Level
  entry_message :: string
  bound :: "Field list"
  call_fields :: "Field list"

section \<open>Handlers and the store\<close>

text \<open>
  Every handler struct of the package has the single field \<open>l *zap.Logger\<close>. Handlers
  and loggers are heap objects reached through pointers, so the state holds both heaps:
  a pointer is an index, allocation appends a cell, a pointer outside the heap is \<open>nil\<close>
  or dangling and dereferencing it panics (\<open>None\<close>). \<open>out\<close> is the stream of records
  written so far. \<open>AlertHandler\<close> is declared in another file of the package.
\<close>

datatype handler_type =
    VictorOpsHandler | SlackHandler | TaskStoreHandler | ReportingHandler
  | StorageHandler | HTTPDHandler | AlertaHandler | KapacitorHandler
  | AlertHandler | HipChatHandler | UDFServiceHandler
  | AlertServiceHandler | PagerDutyHandler

record handler =
  htype :: handler_type
  h_l :: nat

record state =
  loggers :: "Field list list"
  handlers :: "handler list"
  out :: "Entry list"

definition deref :: "state \<Rightarrow> nat \<Rightarrow> handler option" where
  "deref s h = (if h < length (handlers s) then Some (handlers s ! h) else None)"

text \<open>\<open>&T{l: lg}\<close>: a fresh handler cell; the pointer to it is returned.\<close>

definition new_handler :: "handler_type \<Rightarrow> nat \<Rightarrow> state \<Rightarrow> nat \<times> state" where
  "new_handler t lg s =
     (length (handlers s), s\<lparr>handlers := handlers s @ [\<lparr>htype = t, h_l = lg\<rparr>]\<rparr>)"

section \<open>The logging backend\<close>

text \<open>
  Modelled from the spec: the \<open>zap\<close> logger is an external collaborator whose code is
  not part of the package. Its boundary is \<open>bind(fields)\<close>, which returns a derived
  handle with the given fields permanently added and never mutates the receiver, and
  \<open>emit(handle, severity, message, fields)\<close>, which writes one record. The root logger
  of \<open>zap.NewExample()\<close> has no bound fields and writes every severity.
\<close>

definition zap_NewExample :: "state \<Rightarrow> nat \<times> state" where
  "zap_NewExample s = (length (loggers s), s\<lparr>loggers := loggers s @ [[]]\<rparr>)"

definition Logger_With :: "nat \<Rightarrow> Field list \<Rightarrow> state \<Rightarrow> (nat \<times> state) option" where
  "Logger_With lg fs s =
     (if lg < length (loggers s)
      then Some (length (loggers s), s\<lparr>loggers := loggers s @ [loggers s ! lg @ fs]\<rparr>)
      else None)"

definition Logger_log :: "Level \<Rightarrow> nat \<Rightarrow> string \<Rightarrow> Field list \<Rightarrow> state \<Rightarrow> state option" where
  "Logger_log lv lg msg fs s =
     (if lg < length (loggers s)
      then Some (s\<lparr>out := out s @
                    [\<lparr>entry_level = lv, entry_message = msg, bound = loggers s ! lg, call_fields = fs\<rparr>]\<rparr>)
      else None)"

definition Logger_Debug :: "nat \<Rightarrow> string \<Rightarrow> Field list \<Rightarrow> state \<Rightarrow> state option" where
  "Logger_Debug = Logger_log DebugLevel"

definition Logger_Info :: "nat \<Rightarrow> string \<Rightarrow> Field list \<Rightarrow> state \<Rightarrow> state option" where
  "Logger_Info = Logger_log InfoLevel"

definition Logger_Warn :: "nat \<Rightarrow> string \<Rightarrow> Field list \<Rightarrow> state \<Rightarrow> state option" where
  "Logger_Warn = Logger_log WarnLevel"

definition Logger_Error :: "nat \<Rightarrow> string \<Rightarrow> Field list \<Rightarrow> state \<Rightarrow> state option" where
  "Logger_Error = Logger_log ErrorLevel"

section \<open>Error reporting with a variable-length context\<close>

text \<open>
  The general path of \<open>Error(msg, err, ctx...)\<close>:
  \<^verbatim>\<open>
  fields := make([]zapcore.Field, len(ctx)+1) // +1 for error
  fields[0] = zap.Error(err)
  for i := 1; i < len(fields); i++ {
      kv := ctx[i-1]
      fields[i] = zap.String(kv.Key, kv.Value)
  }
  \<close>
  \<open>fill_fields\<close> is the loop; an index outside \<open>ctx\<close> would panic.
\<close>

function fill_fields :: "keyvalue_T list \<Rightarrow> nat \<Rightarrow> Field list \<Rightarrow> Field list option" where
  "fill_fields ctx i fs =
     (if i < length fs then
        (if 1 \<le> i \<and> i - 1 < length ctx
         then (let kv = ctx ! (i - 1)
               in fill_fields ctx (i + 1) (fs[i := zap_String (Key kv) (Value kv)]))
         else None)
      else Some fs)"
  by pat_completeness auto
termination
  by (relation "measure (\<lambda>(ctx, i, fs). length fs - i)") auto

definition general_fields :: "error \<Rightarrow> keyvalue_T list \<Rightarrow> Field list option" where
  "general_fields err ctx =
     (let fs = replicate (length ctx + 1) Field_zero;
          fs = fs[0 := zap_Error err]
      in fill_fields ctx 1 fs)"

text \<open>The tail of the three \<open>Error\<close> methods, after the special cases.\<close>

definition Error_general_path ::
  "nat \<Rightarrow> string \<Rightarrow> error \<Rightarrow> keyvalue_T list \<Rightarrow> state \<Rightarrow> state option" where
  "Error_general_path h msg err ctx s =
     do { fs \<leftarrow> general_fields err ctx;
          hv \<leftarrow> deref s h;
          Logger_Error (h_l hv) msg fs s }"

definition AlertServiceHandler_Error ::
  "nat \<Rightarrow> string \<Rightarrow> error \<Rightarrow> keyvalue_T list \<Rightarrow> state \<Rightarrow> state option" where
  "AlertServiceHandler_Error h msg err ctx s =
     (if length ctx = 0 then
        do { hv \<leftarrow> deref s h; Logger_Error (h_l hv) msg [zap_Error err] s }
      else if length ctx = 1 then
        (let el = ctx ! 0
         in do { hv \<leftarrow> deref s h;
                 Logger_Error (h_l hv) msg [zap_Error err, zap_String (Key el) (Value el)] s })
      else if length ctx = 2 then
        (let x = ctx ! 0; y = ctx ! 1
         in do { hv \<leftarrow> deref s h;
                 Logger_Error (h_l hv) msg
                   [zap_Error err, zap_String (Key x) (Value x), zap_String (Key y) (Value y)] s })
      else Error_general_path h msg err ctx s)"

definition KapacitorHandler_Error ::
  "nat \<Rightarrow> string \<Rightarrow> error \<Rightarrow> keyvalue_T list \<Rightarrow> state \<Rightarrow> state option" where
  "KapacitorHandler_Error h msg err ctx s =
     (if length ctx = 0 then
        do { hv \<leftarrow> deref s h; Logger_Error (h_l hv) msg [zap_Error err] s }
      else if length ctx = 1 then
        (let el = ctx ! 0
         in do { hv \<leftarrow> deref s h;
                 Logger_Error (h_l hv) msg [zap_Error err, zap_String (Key el) (Value el)] s })
      else if length ctx = 2 then
        (let x = ctx ! 0; y = ctx ! 1
         in do { hv \<leftarrow> deref s h;
                 Logger_Error (h_l hv) msg
                   [zap_Error err, zap_String (Key x) (Value x), zap_String (Key y) (Value y)] s })
      else Error_general_path h msg err ctx s)"

definition TaskStoreHandler_Error ::
  "nat \<Rightarrow> string \<Rightarrow> error \<Rightarrow> keyvalue_T list \<Rightarrow> state \<Rightarrow> state option" where
  "TaskStoreHandler_Error h msg err ctx s =
     (if length ctx = 0 then
        do { hv \<leftarrow> deref s h; Logger_Error (h_l hv) msg [zap_Error err] s }
      else if length ctx = 1 then
        (let el = ctx ! 0
         in do { hv \<leftarrow> deref s h;
                 Logger_Error (h_l hv) msg [zap_Error err, zap_String (Key el) (Value el)] s })
      else if length ctx = 2 then
        (let x = ctx ! 0; y = ctx ! 1
         in do { hv \<leftarrow> deref s h;
                 Logger_Error (h_l hv) msg
                   [zap_Error err, zap_String (Key x) (Value x), zap_String (Key y) (Value y)] s })
      else Error_general_path h msg err ctx s)"

text \<open>
  The field list in the words of the specification: the error field, then every pair of
  the context as a string field, in order.
\<close>

definition String_of :: "keyvalue_T \<Rightarrow> Field" where
  "String_of kv = zap_String (Key kv) (Value kv)"

definition error_fields_spec :: "error \<Rightarrow> keyvalue_T list \<Rightarrow> Field list" where
  "error_fields_spec err ctx = zap_Error err # map String_of ctx"

section \<open>Typed event methods\<close>

text \<open>
  Every event method reads the receiver's logger (\<open>h.l\<close>) and calls one of its
  severity methods with a fixed message and the parameters as fields.
\<close>

subsection \<open>AlertServiceHandler\<close>

definition AlertServiceHandler_MigratingHandlerSpecs :: "nat \<Rightarrow> state \<Rightarrow> state option" where
  "AlertServiceHandler_MigratingHandlerSpecs h s =
     do { hv \<leftarrow> deref s h;
          Logger_Debug (h_l hv) ''migrating old v1.2 handler specs''
            [] s }"

definition AlertServiceHandler_MigratingOldHandlerSpec :: "nat \<Rightarrow> string \<Rightarrow> state \<Rightarrow> state option" where
  "AlertServiceHandler_MigratingOldHandlerSpec h spec s =
     do { hv \<leftarrow> deref s h;
          Logger_Debug (h_l hv) ''migrating old handler spec''
            [zap_String ''handler'' spec] s }"

definition AlertServiceHandler_FoundHandlerRows :: "nat \<Rightarrow> go_int \<Rightarrow> state \<Rightarrow> state option" where
  "AlertServiceHandler_FoundHandlerRows h length' s =
     do { hv \<leftarrow> deref s h;
          Logger_Debug (h_l hv) ''found handler rows''
            [zap_Int ''handler_row_count'' length'] s }"

definition AlertServiceHandler_CreatingNewHandlers :: "nat \<Rightarrow> go_int \<Rightarrow> state \<Rightarrow> state option" where
  "AlertServiceHandler_CreatingNewHandlers h length' s =
     do { hv \<leftarrow> deref s h;
          Logger_Debug (h_l hv) ''creating new handlers in place of old handlers''
            [zap_Int ''handler_row_count'' length'] s }"

definition AlertServiceHandler_FoundNewHandler :: "nat \<Rightarrow> string \<Rightarrow> state \<Rightarrow> state option" where
  "AlertServiceHandler_FoundNewHandler h key s =
     do { hv \<leftarrow> deref s h;
          Logger_Debug (h_l hv) ''found new handler skipping''
            [zap_String ''handler'' key] s }"

subsection \<open>KapacitorHandler\<close>

definition KapacitorHandler_TaskMasterOpened :: "nat \<Rightarrow> state \<Rightarrow> state option" where
  "KapacitorHandler_TaskMasterOpened h s =
     do { hv \<leftarrow> deref s h;
          Logger_Info (h_l hv) ''opened task master''
            [] s }"

definition KapacitorHandler_TaskMasterClosed :: "nat \<Rightarrow> state \<Rightarrow> state option" where
  "KapacitorHandler_TaskMasterClosed h s =
     do { hv \<leftarrow> deref s h;
          Logger_Info (h_l hv) ''closed task master''
            [] s }"

definition KapacitorHandler_StartingTask :: "nat \<Rightarrow> string \<Rightarrow> state \<Rightarrow> state option" where
  "KapacitorHandler_StartingTask h task s =
     do { hv \<leftarrow> deref s h;
          Logger_Debug (h_l hv) ''starting task''
            [zap_String ''task'' task] s }"

definition KapacitorHandler_StartedTask :: "nat \<Rightarrow> string \<Rightarrow> state \<Rightarrow> state option" where
  "KapacitorHandler_StartedTask h task s =
     do { hv \<leftarrow> deref s h;
          Logger_Info (h_l hv) ''started task''
            [zap_String ''task'' task] s }"

definition KapacitorHandler_StoppedTask :: "nat \<Rightarrow> string \<Rightarrow> state \<Rightarrow> state option" where
  "KapacitorHandler_StoppedTask h task s =
     do { hv \<leftarrow> deref s h;
          Logger_Info (h_l hv) ''stopped task''
            [zap_String ''task'' task] s }"

definition KapacitorHandler_StoppedTaskWithError :: "nat \<Rightarrow> string \<Rightarrow> error \<Rightarrow> state \<Rightarrow> state option" where
  "KapacitorHandler_StoppedTaskWithError h task err s =
     do { hv \<leftarrow> deref s h;
          Logger_Error (h_l hv) ''failed to stop task with out error''
            [zap_String ''task'' task, zap_Error err] s }"

definition KapacitorHandler_TaskMasterDot :: "nat \<Rightarrow> string \<Rightarrow> state \<Rightarrow> state option" where
  "KapacitorHandler_TaskMasterDot h d s =
     do { hv \<leftarrow> deref s h;
          Logger_Debug (h_l hv) ''listing dot''
            [zap_String ''dot'' d] s }"

definition KapacitorHandler_ClosingEdge :: "nat \<Rightarrow> go_int64 \<Rightarrow> go_int64 \<Rightarrow> state \<Rightarrow> state option" where
  "KapacitorHandler_ClosingEdge h collected emitted s =
     do { hv \<leftarrow> deref s h;
          Logger_Debug (h_l hv) ''closing edge''
            [zap_Int64 ''collected'' collected, zap_Int64 ''emitted'' emitted] s }"

definition KapacitorHandler_AlertTriggered :: "nat \<Rightarrow> alert_Level \<Rightarrow> string \<Rightarrow> string \<Rightarrow> models_Row \<Rightarrow> state \<Rightarrow> state option" where
  "KapacitorHandler_AlertTriggered h lvl id' message rows s =
     do { hv \<leftarrow> deref s h;
          Logger_Debug (h_l hv) ''alert triggered''
            [zap_Stringer ''level'' lvl, zap_String ''id'' id', zap_String ''event_message'' message, zap_String ''data'' (fmt_Sprintf_v rows)] s }"

definition KapacitorHandler_SettingReplicas :: "nat \<Rightarrow> go_int \<Rightarrow> go_int \<Rightarrow> string \<Rightarrow> state \<Rightarrow> state option" where
  "KapacitorHandler_SettingReplicas h new old id' s =
     do { hv \<leftarrow> deref s h;
          Logger_Debug (h_l hv) ''setting replicas''
            [zap_Int ''new'' new, zap_Int ''old'' old, zap_String ''id'' id'] s }"

definition KapacitorHandler_StartingBatchQuery :: "nat \<Rightarrow> string \<Rightarrow> state \<Rightarrow> state option" where
  "KapacitorHandler_StartingBatchQuery h q s =
     do { hv \<leftarrow> deref s h;
          Logger_Debug (h_l hv) ''starting next batch query''
            [zap_String ''query'' q] s }"

definition KapacitorHandler_CannotPerformDerivative :: "nat \<Rightarrow> string \<Rightarrow> state \<Rightarrow> state option" where
  "KapacitorHandler_CannotPerformDerivative h reason s =
     do { hv \<leftarrow> deref s h;
          Logger_Error (h_l hv) ''cannot perform derivative''
            [zap_String ''reason'' reason] s }"

definition KapacitorHandler_MissingTagForFlattenOp :: "nat \<Rightarrow> string \<Rightarrow> state \<Rightarrow> state option" where
  "KapacitorHandler_MissingTagForFlattenOp h tag s =
     do { hv \<leftarrow> deref s h;
          Logger_Error (h_l hv) ''point missing tag for flatten operation''
            [zap_String ''tag'' tag] s }"

definition KapacitorHandler_IndexOutOfRangeForRow :: "nat \<Rightarrow> go_int \<Rightarrow> state \<Rightarrow> state option" where
  "KapacitorHandler_IndexOutOfRangeForRow h idx s =
     do { hv \<leftarrow> deref s h;
          Logger_Error (h_l hv) ''index out of range for row update''
            [zap_Int ''index'' idx] s }"

definition KapacitorHandler_LoopbackWriteFailed :: "nat \<Rightarrow> state \<Rightarrow> state option" where
  "KapacitorHandler_LoopbackWriteFailed h s =
     do { hv \<leftarrow> deref s h;
          Logger_Error (h_l hv) ''failed to write point over loopback''
            [] s }"

text \<open>
  \<open>LogData\<close>: the \<open>switch\<close> logs in its \<open>"info"\<close> case and does nothing in its
  \<open>default\<close> case; the statement after the \<open>switch\<close> logs again, whatever the level.
\<close>

definition KapacitorHandler_LogData ::
  "nat \<Rightarrow> string \<Rightarrow> string \<Rightarrow> string \<Rightarrow> state \<Rightarrow> state option" where
  "KapacitorHandler_LogData h lvl prefix data s =
     do { s1 \<leftarrow> (if lvl = ''info''
                 then do { hv \<leftarrow> deref s h;
                           Logger_Info (h_l hv) ''listing data''
                             [zap_String ''prefix'' prefix, zap_String ''data'' data] s }
                 else Some s);
          hv \<leftarrow> deref s1 h;
          Logger_Info (h_l hv) ''listing data''
            [zap_String ''prefix'' prefix, zap_String ''data'' data] s1 }"

definition KapacitorHandler_UDFLog :: "nat \<Rightarrow> string \<Rightarrow> state \<Rightarrow> state option" where
  "KapacitorHandler_UDFLog h txt s =
     do { hv \<leftarrow> deref s h;
          Logger_Info (h_l hv) ''UDF log''
            [zap_String ''text'' txt] s }"

subsection \<open>AlertaHandler, HipChatHandler\<close>

definition AlertaHandler_TemplateError :: "nat \<Rightarrow> error \<Rightarrow> keyvalue_T \<Rightarrow> state \<Rightarrow> state option" where
  "AlertaHandler_TemplateError h err kv s =
     do { hv \<leftarrow> deref s h;
          Logger_Error (h_l hv) ''failed to evaluate Alerta template''
            [zap_Error err, zap_String (Key kv) (Value kv)] s }"

definition AlertaHandler_Error :: "nat \<Rightarrow> string \<Rightarrow> error \<Rightarrow> state \<Rightarrow> state option" where
  "AlertaHandler_Error h msg err s =
     do { hv \<leftarrow> deref s h;
          Logger_Error (h_l hv) msg [zap_Error err] s }"

definition HipChatHandler_Error :: "nat \<Rightarrow> string \<Rightarrow> error \<Rightarrow> state \<Rightarrow> state option" where
  "HipChatHandler_Error h msg err s =
     do { hv \<leftarrow> deref s h;
          Logger_Error (h_l hv) msg [zap_Error err] s }"

subsection \<open>HTTPDHandler\<close>

text \<open>\<open>*log.Logger\<close>: \<open>None\<close> is the \<open>nil\<close> pointer. The method does not read its receiver.\<close>

type_synonym log_Logger = "nat option"

definition HTTPDHandler_NewHTTPServerErrorLogger :: "nat \<Rightarrow> state \<Rightarrow> (log_Logger \<times> state) option" where
  "HTTPDHandler_NewHTTPServerErrorLogger h s = Some (None, s)"

definition HTTPDHandler_StartingService :: "nat \<Rightarrow> state \<Rightarrow> state option" where
  "HTTPDHandler_StartingService h s =
     do { hv \<leftarrow> deref s h;
          Logger_Info (h_l hv) ''starting HTTP service''
            [] s }"

definition HTTPDHandler_StoppedService :: "nat \<Rightarrow> state \<Rightarrow> state option" where
  "HTTPDHandler_StoppedService h s =
     do { hv \<leftarrow> deref s h;
          Logger_Info (h_l hv) ''closed HTTP service''
            [] s }"

definition HTTPDHandler_ShutdownTimeout :: "nat \<Rightarrow> state \<Rightarrow> state option" where
  "HTTPDHandler_ShutdownTimeout h s =
     do { hv \<leftarrow> deref s h;
          Logger_Error (h_l hv) ''shutdown timedout, forcefully closing all remaining connections''
            [] s }"

definition HTTPDHandler_AuthenticationEnabled :: "nat \<Rightarrow> bool \<Rightarrow> state \<Rightarrow> state option" where
  "HTTPDHandler_AuthenticationEnabled h enabled s =
     do { hv \<leftarrow> deref s h;
          Logger_Info (h_l hv) ''authentication''
            [zap_Bool ''enabled'' enabled] s }"

definition HTTPDHandler_ListeningOn :: "nat \<Rightarrow> string \<Rightarrow> string \<Rightarrow> state \<Rightarrow> state option" where
  "HTTPDHandler_ListeningOn h addr proto s =
     do { hv \<leftarrow> deref s h;
          Logger_Info (h_l hv) ''listening on''
            [zap_String ''addr'' addr, zap_String ''protocol'' proto] s }"

definition HTTPDHandler_WriteBodyReceived :: "nat \<Rightarrow> string \<Rightarrow> state \<Rightarrow> state option" where
  "HTTPDHandler_WriteBodyReceived h body s =
     do { hv \<leftarrow> deref s h;
          Logger_Debug (h_l hv) ''write body received by handler: %s''
            [zap_String ''body'' body] s }"

definition HTTPDHandler_HTTP :: "nat \<Rightarrow> string \<Rightarrow> string \<Rightarrow> time_Time \<Rightarrow> string \<Rightarrow> string \<Rightarrow> string \<Rightarrow> go_int \<Rightarrow> string \<Rightarrow> string \<Rightarrow> string \<Rightarrow> time_Duration \<Rightarrow> state \<Rightarrow> state option" where
  "HTTPDHandler_HTTP h host username start method uri proto status referer userAgent reqID duration s =
     do { hv \<leftarrow> deref s h;
          Logger_Info (h_l hv) ''???''
            [zap_String ''host'' host, zap_String ''username'' username, zap_Time ''start'' start, zap_String ''method'' method, zap_String ''uri'' uri, zap_String ''protocol'' proto, zap_Int ''status'' status, zap_String ''referer'' referer, zap_String ''user-agent'' userAgent, zap_String ''request-id'' reqID, zap_Duration ''duration'' duration] s }"

definition HTTPDHandler_RecoveryError :: "nat \<Rightarrow> string \<Rightarrow> string \<Rightarrow> string \<Rightarrow> string \<Rightarrow> time_Time \<Rightarrow> string \<Rightarrow> string \<Rightarrow> string \<Rightarrow> go_int \<Rightarrow> string \<Rightarrow> string \<Rightarrow> string \<Rightarrow> time_Duration \<Rightarrow> state \<Rightarrow> state option" where
  "HTTPDHandler_RecoveryError h msg err host username start method uri proto status referer userAgent reqID duration s =
     do { hv \<leftarrow> deref s h;
          Logger_Error (h_l hv) msg
            [zap_String ''err'' err, zap_String ''host'' host, zap_String ''username'' username, zap_Time ''start'' start, zap_String ''method'' method, zap_String ''uri'' uri, zap_String ''protocol'' proto, zap_Int ''status'' status, zap_String ''referer'' referer, zap_String ''user-agent'' userAgent, zap_String ''request-id'' reqID, zap_Duration ''duration'' duration] s }"

definition HTTPDHandler_Error :: "nat \<Rightarrow> string \<Rightarrow> error \<Rightarrow> state \<Rightarrow> state option" where
  "HTTPDHandler_Error h msg err s =
     do { hv \<leftarrow> deref s h;
          Logger_Error (h_l hv) msg [zap_Error err] s }"

subsection \<open>ReportingHandler, PagerDutyHandler, SlackHandler, StorageHandler\<close>

definition ReportingHandler_Error :: "nat \<Rightarrow> string \<Rightarrow> error \<Rightarrow> state \<Rightarrow> state option" where
  "ReportingHandler_Error h msg err s =
     do { hv \<leftarrow> deref s h;
          Logger_Error (h_l hv) msg [zap_Error err] s }"

definition PagerDutyHandler_Error :: "nat \<Rightarrow> string \<Rightarrow> error \<Rightarrow> state \<Rightarrow> state option" where
  "PagerDutyHandler_Error h msg err s =
     do { hv \<leftarrow> deref s h;
          Logger_Error (h_l hv) msg [zap_Error err] s }"

definition SlackHandler_InsecureSkipVerify :: "nat \<Rightarrow> state \<Rightarrow> state option" where
  "SlackHandler_InsecureSkipVerify h s =
     do { hv \<leftarrow> deref s h;
          Logger_Warn (h_l hv) ''service is configured to skip ssl verification''
            [] s }"

definition SlackHandler_Error :: "nat \<Rightarrow> string \<Rightarrow> error \<Rightarrow> state \<Rightarrow> state option" where
  "SlackHandler_Error h msg err s =
     do { hv \<leftarrow> deref s h;
          Logger_Error (h_l hv) msg [zap_Error err] s }"

definition StorageHandler_Error :: "nat \<Rightarrow> string \<Rightarrow> error \<Rightarrow> state \<Rightarrow> state option" where
  "StorageHandler_Error h msg err s =
     do { hv \<leftarrow> deref s h;
          Logger_Error (h_l hv) msg [zap_Error err] s }"

subsection \<open>TaskStoreHandler, VictorOpsHandler, UDFServiceHandler\<close>

definition TaskStoreHandler_StartingTask :: "nat \<Rightarrow> string \<Rightarrow> state \<Rightarrow> state option" where
  "TaskStoreHandler_StartingTask h taskID s =
     do { hv \<leftarrow> deref s h;
          Logger_Debug (h_l hv) ''starting enabled task on startup''
            [zap_String ''task'' taskID] s }"

definition TaskStoreHandler_StartedTask :: "nat \<Rightarrow> string \<Rightarrow> state \<Rightarrow> state option" where
  "TaskStoreHandler_StartedTask h taskID s =
     do { hv \<leftarrow> deref s h;
          Logger_Debug (h_l hv) ''started task during startup''
            [zap_String ''task'' taskID] s }"

definition TaskStoreHandler_FinishedTask :: "nat \<Rightarrow> string \<Rightarrow> state \<Rightarrow> state option" where
  "TaskStoreHandler_FinishedTask h taskID s =
     do { hv \<leftarrow> deref s h;
          Logger_Debug (h_l hv) ''task finished''
            [zap_String ''task'' taskID] s }"

definition TaskStoreHandler_Debug :: "nat \<Rightarrow> string \<Rightarrow> state \<Rightarrow> state option" where
  "TaskStoreHandler_Debug h msg s =
     do { hv \<leftarrow> deref s h;
          Logger_Debug (h_l hv) msg [] s }"

definition TaskStoreHandler_AlreadyMigrated :: "nat \<Rightarrow> string \<Rightarrow> string \<Rightarrow> state \<Rightarrow> state option" where
  "TaskStoreHandler_AlreadyMigrated h entity id' s =
     do { hv \<leftarrow> deref s h;
          Logger_Debug (h_l hv) ''entity has already been migrated skipping''
            [zap_String entity id'] s }"

definition TaskStoreHandler_Migrated :: "nat \<Rightarrow> string \<Rightarrow> string \<Rightarrow> state \<Rightarrow> state option" where
  "TaskStoreHandler_Migrated h entity id' s =
     do { hv \<leftarrow> deref s h;
          Logger_Debug (h_l hv) ''entity was migrated to new storage service''
            [zap_String entity id'] s }"

definition VictorOpsHandler_Error :: "nat \<Rightarrow> string \<Rightarrow> error \<Rightarrow> state \<Rightarrow> state option" where
  "VictorOpsHandler_Error h msg err s =
     do { hv \<leftarrow> deref s h;
          Logger_Error (h_l hv) msg [zap_Error err] s }"

definition UDFServiceHandler_LoadedUDFInfo :: "nat \<Rightarrow> string \<Rightarrow> state \<Rightarrow> state option" where
  "UDFServiceHandler_LoadedUDFInfo h udf s =
     do { hv \<leftarrow> deref s h;
          Logger_Debug (h_l hv) ''loaded UDF info''
            [zap_String ''udf'' udf] s }"

section \<open>Context binding\<close>

text \<open>
  \<^verbatim>\<open>
  fields := []zapcore.Field{}
  for _, kv := range ctx {
      fields = append(fields, zap.String(kv.Key, kv.Value))
  }
  \<close>
  \<open>range_append ctx fs\<close> is the loop, started with \<open>fs = []\<close>.
\<close>

fun range_append :: "keyvalue_T list \<Rightarrow> Field list \<Rightarrow> Field list" where
  "range_append [] fs = fs"
| "range_append (kv # ctx) fs = range_append ctx (fs @ [zap_String (Key kv) (Value kv)])"

definition AlertServiceHandler_WithHandlerContext :: "nat \<Rightarrow> keyvalue_T list \<Rightarrow> state \<Rightarrow> (nat \<times> state) option" where
  "AlertServiceHandler_WithHandlerContext h ctx s =
     (let fs = range_append ctx []
      in do { hv \<leftarrow> deref s h;
              (lg, s') \<leftarrow> Logger_With (h_l hv) fs s;
              Some (new_handler AlertServiceHandler lg s') })"

definition AlertaHandler_WithContext :: "nat \<Rightarrow> keyvalue_T list \<Rightarrow> state \<Rightarrow> (nat \<times> state) option" where
  "AlertaHandler_WithContext h ctx s =
     (let fs = range_append ctx []
      in do { hv \<leftarrow> deref s h;
              (lg, s') \<leftarrow> Logger_With (h_l hv) fs s;
              Some (new_handler AlertaHandler lg s') })"

definition HipChatHandler_WithContext :: "nat \<Rightarrow> keyvalue_T list \<Rightarrow> state \<Rightarrow> (nat \<times> state) option" where
  "HipChatHandler_WithContext h ctx s =
     (let fs = range_append ctx []
      in do { hv \<leftarrow> deref s h;
              (lg, s') \<leftarrow> Logger_With (h_l hv) fs s;
              Some (new_handler HipChatHandler lg s') })"

definition PagerDutyHandler_WithContext :: "nat \<Rightarrow> keyvalue_T list \<Rightarrow> state \<Rightarrow> (nat \<times> state) option" where
  "PagerDutyHandler_WithContext h ctx s =
     (let fs = range_append ctx []
      in do { hv \<leftarrow> deref s h;
              (lg, s') \<leftarrow> Logger_With (h_l hv) fs s;
              Some (new_handler PagerDutyHandler lg s') })"

definition SlackHandler_WithContext :: "nat \<Rightarrow> keyvalue_T list \<Rightarrow> state \<Rightarrow> (nat \<times> state) option" where
  "SlackHandler_WithContext h ctx s =
     (let fs = range_append ctx []
      in do { hv \<leftarrow> deref s h;
              (lg, s') \<leftarrow> Logger_With (h_l hv) fs s;
              Some (new_handler SlackHandler lg s') })"

definition VictorOpsHandler_WithContext :: "nat \<Rightarrow> keyvalue_T list \<Rightarrow> state \<Rightarrow> (nat \<times> state) option" where
  "VictorOpsHandler_WithContext h ctx s =
     (let fs = range_append ctx []
      in do { hv \<leftarrow> deref s h;
              (lg, s') \<leftarrow> Logger_With (h_l hv) fs s;
              Some (new_handler VictorOpsHandler lg s') })"

text \<open>The named variants of \<open>KapacitorHandler\<close> bind a fixed set of keys.\<close>

definition KapacitorHandler_WithTaskContext :: "nat \<Rightarrow> string \<Rightarrow> state \<Rightarrow> (nat \<times> state) option" where
  "KapacitorHandler_WithTaskContext h task s =
     do { hv \<leftarrow> deref s h;
          (lg, s') \<leftarrow> Logger_With (h_l hv) [zap_String ''task'' task] s;
          Some (new_handler KapacitorHandler lg s') }"

definition KapacitorHandler_WithTaskMasterContext :: "nat \<Rightarrow> string \<Rightarrow> state \<Rightarrow> (nat \<times> state) option" where
  "KapacitorHandler_WithTaskMasterContext h tm s =
     do { hv \<leftarrow> deref s h;
          (lg, s') \<leftarrow> Logger_With (h_l hv) [zap_String ''task_master'' tm] s;
          Some (new_handler KapacitorHandler lg s') }"

definition KapacitorHandler_WithNodeContext :: "nat \<Rightarrow> string \<Rightarrow> state \<Rightarrow> (nat \<times> state) option" where
  "KapacitorHandler_WithNodeContext h node s =
     do { hv \<leftarrow> deref s h;
          (lg, s') \<leftarrow> Logger_With (h_l hv) [zap_String ''node'' node] s;
          Some (new_handler KapacitorHandler lg s') }"

definition KapacitorHandler_WithEdgeContext :: "nat \<Rightarrow> string \<Rightarrow> string \<Rightarrow> string \<Rightarrow> state \<Rightarrow> (nat \<times> state) option" where
  "KapacitorHandler_WithEdgeContext h task parent child s =
     do { hv \<leftarrow> deref s h;
          (lg, s') \<leftarrow> Logger_With (h_l hv) [zap_String ''task'' task, zap_String ''parent'' parent, zap_String ''child'' child] s;
          Some (new_handler KapacitorHandler lg s') }"

section \<open>The factory\<close>

text \<open>
  The struct \<open>service\<close> holds the root logger. \<open>NewService\<close> returns the only pointer to
  it and no method writes to it, so the accessors take it by value.
\<close>

record service =
  logger :: nat

definition NewService :: "state \<Rightarrow> service \<times> state" where
  "NewService s = (let (lg, s') = zap_NewExample s in (\<lparr>logger = lg\<rparr>, s'))"

definition service_NewVictorOpsHandler :: "service \<Rightarrow> state \<Rightarrow> (nat \<times> state) option" where
  "service_NewVictorOpsHandler svc s =
     do { (lg, s') \<leftarrow> Logger_With (logger svc) [zap_String ''service'' ''victorops''] s;
          Some (new_handler VictorOpsHandler lg s') }"

definition service_NewSlackHandler :: "service \<Rightarrow> state \<Rightarrow> (nat \<times> state) option" where
  "service_NewSlackHandler svc s =
     do { (lg, s') \<leftarrow> Logger_With (logger svc) [zap_String ''service'' ''slack''] s;
          Some (new_handler SlackHandler lg s') }"

definition service_NewTaskStoreHandler :: "service \<Rightarrow> state \<Rightarrow> (nat \<times> state) option" where
  "service_NewTaskStoreHandler svc s =
     do { (lg, s') \<leftarrow> Logger_With (logger svc) [zap_String ''service'' ''task_store''] s;
          Some (new_handler TaskStoreHandler lg s') }"

definition service_NewReportingHandler :: "service \<Rightarrow> state \<Rightarrow> (nat \<times> state) option" where
  "service_NewReportingHandler svc s =
     do { (lg, s') \<leftarrow> Logger_With (logger svc) [zap_String ''service'' ''reporting''] s;
          Some (new_handler ReportingHandler lg s') }"

definition service_NewStorageHandler :: "service \<Rightarrow> state \<Rightarrow> (nat \<times> state) option" where
  "service_NewStorageHandler svc s =
     do { (lg, s') \<leftarrow> Logger_With (logger svc) [zap_String ''service'' ''storage''] s;
          Some (new_handler StorageHandler lg s') }"

definition service_NewHTTPDHandler :: "service \<Rightarrow> state \<Rightarrow> (nat \<times> state) option" where
  "service_NewHTTPDHandler svc s =
     do { (lg, s') \<leftarrow> Logger_With (logger svc) [zap_String ''service'' ''http''] s;
          Some (new_handler HTTPDHandler lg s') }"

definition service_NewAlertaHandler :: "service \<Rightarrow> state \<Rightarrow> (nat \<times> state) option" where
  "service_NewAlertaHandler svc s =
     do { (lg, s') \<leftarrow> Logger_With (logger svc) [zap_String ''service'' ''alerta''] s;
          Some (new_handler AlertaHandler lg s') }"

definition service_NewKapacitorHandler :: "service \<Rightarrow> state \<Rightarrow> (nat \<times> state) option" where
  "service_NewKapacitorHandler svc s =
     do { (lg, s') \<leftarrow> Logger_With (logger svc) [zap_String ''service'' ''kapacitor''] s;
          Some (new_handler KapacitorHandler lg s') }"

definition service_NewAlertHandler :: "service \<Rightarrow> state \<Rightarrow> (nat \<times> state) option" where
  "service_NewAlertHandler svc s =
     do { (lg, s') \<leftarrow> Logger_With (logger svc) [zap_String ''service'' ''alert''] s;
          Some (new_handler AlertHandler lg s') }"

definition service_NewHipChatHandler :: "service \<Rightarrow> state \<Rightarrow> (nat \<times> state) option" where
  "service_NewHipChatHandler svc s =
     do { (lg, s') \<leftarrow> Logger_With (logger svc) [zap_String ''service'' ''hipchat''] s;
          Some (new_handler HipChatHandler lg s') }"

definition service_NewUDFServiceHandler :: "service \<Rightarrow> state \<Rightarrow> (nat \<times> state) option" where
  "service_NewUDFServiceHandler svc s =
     do { (lg, s') \<leftarrow> Logger_With (logger svc) [zap_String ''service'' ''udf''] s;
          Some (new_handler UDFServiceHandler lg s') }"

text \<open>The state of a process before \<open>NewService\<close>: nothing allocated, nothing written.\<close>

definition init :: state where
  "init = \<lparr>loggers = [], handlers = [], out = []\<rparr>"

section \<open>Event calls as data\<close>

text \<open>
  One constructor per event method of the package, with the arguments of the call;
  \<open>invoke c h s\<close> makes the call \<open>c\<close> on the handler \<open>h\<close>. Which methods a handler
  offers is settled by Go's static types and costs nothing at run time, so \<open>invoke\<close>
  does not look at \<open>htype\<close>.
\<close>

datatype call =
    Call_AlertService_MigratingHandlerSpecs
  | Call_AlertService_MigratingOldHandlerSpec string
  | Call_AlertService_FoundHandlerRows go_int
  | Call_AlertService_CreatingNewHandlers go_int
  | Call_AlertService_FoundNewHandler string
  | Call_AlertService_Error string error "keyvalue_T list"
  | Call_Kapacitor_TaskMasterOpened
  | Call_Kapacitor_TaskMasterClosed
  | Call_Kapacitor_StartingTask string
  | Call_Kapacitor_StartedTask string
  | Call_Kapacitor_StoppedTask string
  | Call_Kapacitor_StoppedTaskWithError string error
  | Call_Kapacitor_TaskMasterDot string
  | Call_Kapacitor_ClosingEdge go_int64 go_int64
  | Call_Kapacitor_Error string error "keyvalue_T list"
  | Call_Kapacitor_AlertTriggered alert_Level string string models_Row
  | Call_Kapacitor_SettingReplicas go_int go_int string
  | Call_Kapacitor_StartingBatchQuery string
  | Call_Kapacitor_CannotPerformDerivative string
  | Call_Kapacitor_MissingTagForFlattenOp string
  | Call_Kapacitor_IndexOutOfRangeForRow go_int
  | Call_Kapacitor_LoopbackWriteFailed
  | Call_Kapacitor_LogData string string string
  | Call_Kapacitor_UDFLog string
  | Call_Alerta_TemplateError error keyvalue_T
  | Call_Alerta_Error string error
  | Call_HipChat_Error string error
  | Call_HTTPD_StartingService
  | Call_HTTPD_StoppedService
  | Call_HTTPD_ShutdownTimeout
  | Call_HTTPD_AuthenticationEnabled bool
  | Call_HTTPD_ListeningOn string string
  | Call_HTTPD_WriteBodyReceived string
  | Call_HTTPD_HTTP string string time_Time string string string go_int string string string time_Duration
  | Call_HTTPD_RecoveryError string string string string time_Time string string string go_int string string string time_Duration
  | Call_HTTPD_Error string error
  | Call_Reporting_Error string error
  | Call_PagerDuty_Error string error
  | Call_Slack_InsecureSkipVerify
  | Call_Slack_Error string error
  | Call_Storage_Error string error
  | Call_TaskStore_StartingTask string
  | Call_TaskStore_StartedTask string
  | Call_TaskStore_FinishedTask string
  | Call_TaskStore_Debug string
  | Call_TaskStore_Error string error "keyvalue_T list"
  | Call_TaskStore_AlreadyMigrated string string
  | Call_TaskStore_Migrated string string
  | Call_VictorOps_Error string error
  | Call_UDFService_LoadedUDFInfo string

fun invoke :: "call \<Rightarrow> nat \<Rightarrow> state \<Rightarrow> state option" where
  "invoke Call_AlertService_MigratingHandlerSpecs h s = AlertServiceHandler_MigratingHandlerSpecs h s"
| "invoke (Call_AlertService_MigratingOldHandlerSpec a1) h s = AlertServiceHandler_MigratingOldHandlerSpec h a1 s"
| "invoke (Call_AlertService_FoundHandlerRows a1) h s = AlertServiceHandler_FoundHandlerRows h a1 s"
| "invoke (Call_AlertService_CreatingNewHandlers a1) h s = AlertServiceHandler_CreatingNewHandlers h a1 s"
| "invoke (Call_AlertService_FoundNewHandler a1) h s = AlertServiceHandler_FoundNewHandler h a1 s"
| "invoke (Call_AlertService_Error a1 a2 a3) h s = AlertServiceHandler_Error h a1 a2 a3 s"
| "invoke Call_Kapacitor_TaskMasterOpened h s = KapacitorHandler_TaskMasterOpened h s"
| "invoke Call_Kapacitor_TaskMasterClosed h s = KapacitorHandler_TaskMasterClosed h s"
| "invoke (Call_Kapacitor_StartingTask a1) h s = KapacitorHandler_StartingTask h a1 s"
| "invoke (Call_Kapacitor_StartedTask a1) h s = KapacitorHandler_StartedTask h a1 s"
| "invoke (Call_Kapacitor_StoppedTask a1) h s = KapacitorHandler_StoppedTask h a1 s"
| "invoke (Call_Kapacitor_StoppedTaskWithError a1 a2) h s = KapacitorHandler_StoppedTaskWithError h a1 a2 s"
| "invoke (Call_Kapacitor_TaskMasterDot a1) h s = KapacitorHandler_TaskMasterDot h a1 s"
| "invoke (Call_Kapacitor_ClosingEdge a1 a2) h s = KapacitorHandler_ClosingEdge h a1 a2 s"
| "invoke (Call_Kapacitor_Error a1 a2 a3) h s = KapacitorHandler_Error h a1 a2 a3 s"
| "invoke (Call_Kapacitor_AlertTriggered a1 a2 a3 a4) h s = KapacitorHandler_AlertTriggered h a1 a2 a3 a4 s"
| "invoke (Call_Kapacitor_SettingReplicas a1 a2 a3) h s = KapacitorHandler_SettingReplicas h a1 a2 a3 s"
| "invoke (Call_Kapacitor_StartingBatchQuery a1) h s = KapacitorHandler_StartingBatchQuery h a1 s"
| "invoke (Call_Kapacitor_CannotPerformDerivative a1) h s = KapacitorHandler_CannotPerformDerivative h a1 s"
| "invoke (Call_Kapacitor_MissingTagForFlattenOp a1) h s = KapacitorHandler_MissingTagForFlattenOp h a1 s"
| "invoke (Call_Kapacitor_IndexOutOfRangeForRow a1) h s = KapacitorHandler_IndexOutOfRangeForRow h a1 s"
| "invoke Call_Kapacitor_LoopbackWriteFailed h s = KapacitorHandler_LoopbackWriteFailed h s"
| "invoke (Call_Kapacitor_LogData a1 a2 a3) h s = KapacitorHandler_LogData h a1 a2 a3 s"
| "invoke (Call_Kapacitor_UDFLog a1) h s = KapacitorHandler_UDFLog h a1 s"
| "invoke (Call_Alerta_TemplateError a1 a2) h s = AlertaHandler_TemplateError h a1 a2 s"
| "invoke (Call_Alerta_Error a1 a2) h s = AlertaHandler_Error h a1 a2 s"
| "invoke (Call_HipChat_Error a1 a2) h s = HipChatHandler_Error h a1 a2 s"
| "invoke Call_HTTPD_StartingService h s = HTTPDHandler_StartingService h s"
| "invoke Call_HTTPD_StoppedService h s = HTTPDHandler_StoppedService h s"
| "invoke Call_HTTPD_ShutdownTimeout h s = HTTPDHandler_ShutdownTimeout h s"
| "invoke (Call_HTTPD_AuthenticationEnabled a1) h s = HTTPDHandler_AuthenticationEnabled h a1 s"
| "invoke (Call_HTTPD_ListeningOn a1 a2) h s = HTTPDHandler_ListeningOn h a1 a2 s"
| "invoke (Call_HTTPD_WriteBodyReceived a1) h s = HTTPDHandler_WriteBodyReceived h a1 s"
| "invoke (Call_HTTPD_HTTP a1 a2 a3 a4 a5 a6 a7 a8 a9 a10 a11) h s = HTTPDHandler_HTTP h a1 a2 a3 a4 a5 a6 a7 a8 a9 a10 a11 s"
| "invoke (Call_HTTPD_RecoveryError a1 a2 a3 a4 a5 a6 a7 a8 a9 a10 a11 a12 a13) h s = HTTPDHandler_RecoveryError h a1 a2 a3 a4 a5 a6 a7 a8 a9 a10 a11 a12 a13 s"
| "invoke (Call_HTTPD_Error a1 a2) h s = HTTPDHandler_Error h a1 a2 s"
| "invoke (Call_Reporting_Error a1 a2) h s = ReportingHandler_Error h a1 a2 s"
| "invoke (Call_PagerDuty_Error a1 a2) h s = PagerDutyHandler_Error h a1 a2 s"
| "invoke Call_Slack_InsecureSkipVerify h s = SlackHandler_InsecureSkipVerify h s"
| "invoke (Call_Slack_Error a1 a2) h s = SlackHandler_Error h a1 a2 s"
| "invoke (Call_Storage_Error a1 a2) h s = StorageHandler_Error h a1 a2 s"
| "invoke (Call_TaskStore_StartingTask a1) h s = TaskStoreHandler_StartingTask h a1 s"
| "invoke (Call_TaskStore_StartedTask a1) h s = TaskStoreHandler_StartedTask h a1 s"
| "invoke (Call_TaskStore_FinishedTask a1) h s = TaskStoreHandler_FinishedTask h a1 s"
| "invoke (Call_TaskStore_Debug a1) h s = TaskStoreHandler_Debug h a1 s"
| "invoke (Call_TaskStore_Error a1 a2 a3) h s = TaskStoreHandler_Error h a1 a2 a3 s"
| "invoke (Call_TaskStore_AlreadyMigrated a1 a2) h s = TaskStoreHandler_AlreadyMigrated h a1 a2 s"
| "invoke (Call_TaskStore_Migrated a1 a2) h s = TaskStoreHandler_Migrated h a1 a2 s"
| "invoke (Call_VictorOps_Error a1 a2) h s = VictorOpsHandler_Error h a1 a2 s"
| "invoke (Call_UDFService_LoadedUDFInfo a1) h s = UDFServiceHandler_LoadedUDFInfo h a1 s"

section \<open>Observing handlers and calls\<close>

text \<open>
  \<open>handler_context s h\<close> is the context bound to the handler \<open>h\<close>: the bound fields
  of the logger it points to, when both pointers are live. \<open>emitted c h s\<close> is the list
  of records that the call \<open>c\<close> on \<open>h\<close> adds to the output, \<open>None\<close> when the call
  panics. \<open>record_of\<close> builds one record.
\<close>

definition handler_context :: "state \<Rightarrow> nat \<Rightarrow> Field list option" where
  "handler_context s h =
     do { hv \<leftarrow> deref s h;
          if h_l hv < length (loggers s) then Some (loggers s ! h_l hv) else None }"

definition emitted :: "call \<Rightarrow> nat \<Rightarrow> state \<Rightarrow> Entry list option" where
  "emitted c h s = map_option (\<lambda>s'. drop (length (out s)) (out s')) (invoke c h s)"

text \<open>The handlers' context-binding methods that take a list of pairs.\<close>

definition WithContext_methods ::
  "(nat \<Rightarrow> keyvalue_T list \<Rightarrow> state \<Rightarrow> (nat \<times> state) option) list" where
  "WithContext_methods =
     [AlertServiceHandler_WithHandlerContext, AlertaHandler_WithContext,
      HipChatHandler_WithContext, PagerDutyHandler_WithContext,
      SlackHandler_WithContext, VictorOpsHandler_WithContext]"

text \<open>The \<open>Error\<close> methods that take a context list.\<close>

definition Error_ctx_methods ::
  "(nat \<Rightarrow> string \<Rightarrow> error \<Rightarrow> keyvalue_T list \<Rightarrow> state \<Rightarrow> state option) list" where
  "Error_ctx_methods =
     [AlertServiceHandler_Error, KapacitorHandler_Error, TaskStoreHandler_Error]"

definition record_of :: "Level \<Rightarrow> string \<Rightarrow> Field list \<Rightarrow> Field list \<Rightarrow> Entry" where
  "record_of lv msg C fs = \<lparr>entry_level = lv, entry_message = msg, bound = C, call_fields = fs\<rparr>"

text \<open>
  \<open>derive t D s\<close> is \<open>s\<close> with one more logger, bound to \<open>D\<close>, and one more handler of
  type \<open>t\<close> that points to it; nothing else of the state changes. \<open>example t name\<close> is
  the state of a process that has called \<open>NewService\<close> and then the factory accessor of
  the handler type \<open>t\<close>, whose service name is \<open>name\<close>.
\<close>

definition derive :: "handler_type \<Rightarrow> Field list \<Rightarrow> state \<Rightarrow> state" where
  "derive t D s =
     s\<lparr>loggers := loggers s @ [D],
       handlers := handlers s @ [\<lparr>htype = t, h_l = length (loggers s)\<rparr>]\<rparr>"

definition example :: "handler_type \<Rightarrow> string \<Rightarrow> state" where
  "example t name = derive t [zap_String ''service'' name] (snd (NewService init))"

text \<open>
  \<open>run cs s\<close> makes the event calls of \<open>cs\<close> one after the other, each on the handler
  it is paired with: what a program does with its handlers after it has derived them.
\<close>

fun run :: "(call \<times> nat) list \<Rightarrow> state \<Rightarrow> state option" where
  "run [] s = Some s"
| "run ((c, h) # cs) s = invoke c h s \<bind> run cs"

section \<open>The building blocks\<close>

lemma range_append_eq: "range_append ctx fs = fs @ map String_of ctx"
  by (induction ctx arbitrary: fs) (simp_all add: String_of_def)

lemma handler_context_out [simp]:
  "handler_context (s\<lparr>out := es\<rparr>) h = handler_context s h"
  by (simp add: handler_context_def deref_def)

lemma log_event:
  "deref s h \<bind> (\<lambda>hv. Logger_log lv (h_l hv) msg fs s) =
     map_option (\<lambda>C. s\<lparr>out := out s @ [record_of lv msg C fs]\<rparr>) (handler_context s h)"
  by (auto simp: handler_context_def Logger_log_def record_of_def split: bind_splits if_splits)

lemmas Logger_defs = Logger_Debug_def Logger_Info_def Logger_Warn_def Logger_Error_def

declare fill_fields.simps [simp del]

lemma fill_fields_eq:
  "length fs = length ctx + 1 \<Longrightarrow> 1 \<le> i \<Longrightarrow> i \<le> length fs \<Longrightarrow>
   fill_fields ctx i fs = Some (take i fs @ map String_of (drop (i - 1) ctx))"
proof (induction ctx i fs rule: fill_fields.induct)
  case (1 ctx i fs)
  show ?case
  proof (cases "i < length fs")
    case False
    then have stop: "fill_fields ctx i fs = Some fs"
      by (subst fill_fields.simps) simp
    from False "1.prems" have "take i fs @ map String_of (drop (i - 1) ctx) = fs" by simp
    with stop show ?thesis by (simp only:)
  next
    case True
    let ?kv = "ctx ! (i - 1)"
    let ?fs = "fs[i := zap_String (Key ?kv) (Value ?kv)]"
    from True "1.prems" have inb: "1 \<le> i \<and> i - 1 < length ctx" by simp
    have step: "fill_fields ctx i fs = fill_fields ctx (i + 1) ?fs"
      using True inb by (subst fill_fields.simps) (simp add: Let_def)
    have ih: "fill_fields ctx (i + 1) ?fs =
                Some (take (i + 1) ?fs @ map String_of (drop (i + 1 - 1) ctx))"
      using "1.IH" [OF True inb refl] "1.prems" True by simp
    have tk: "take (i + 1) ?fs = take i fs @ [String_of ?kv]"
      using True by (simp add: take_Suc_conv_app_nth String_of_def)
    have dr: "drop (i - 1) ctx = ?kv # drop i ctx"
      using inb by (metis Cons_nth_drop_Suc less_eq_Suc_le One_nat_def Suc_diff_1)
    have "fill_fields ctx i fs = Some ((take i fs @ [String_of ?kv]) @ map String_of (drop i ctx))"
      using step ih tk by simp
    also have "(take i fs @ [String_of ?kv]) @ map String_of (drop i ctx) =
                 take i fs @ map String_of (drop (i - 1) ctx)"
      by (simp only: dr list.map append_Cons append_Nil append_assoc)
    finally show ?thesis .
  qed
qed

lemma general_fields_eq: "general_fields err ctx = Some (error_fields_spec err ctx)"
  using fill_fields_eq [of "(replicate (length ctx + 1) Field_zero)[0 := zap_Error err]" ctx 1]
  by (simp add: general_fields_def error_fields_spec_def)

lemma Error_general_path_eq:
  "Error_general_path h msg err ctx s =
     deref s h \<bind> (\<lambda>hv. Logger_log ErrorLevel (h_l hv) msg (error_fields_spec err ctx) s)"
  by (simp add: Error_general_path_def general_fields_eq Logger_Error_def)

lemma fast_path_fields:
  "length ctx = 0 \<Longrightarrow> [zap_Error err] = error_fields_spec err ctx"
  "length ctx = 1 \<Longrightarrow>
     [zap_Error err, zap_String (Key (ctx ! 0)) (Value (ctx ! 0))] = error_fields_spec err ctx"
  "length ctx = 2 \<Longrightarrow>
     [zap_Error err, zap_String (Key (ctx ! 0)) (Value (ctx ! 0)),
      zap_String (Key (ctx ! 1)) (Value (ctx ! 1))] = error_fields_spec err ctx"
  by (auto simp: error_fields_spec_def String_of_def length_Suc_conv numeral_2_eq_2)

lemma AlertServiceHandler_Error_eq:
  "AlertServiceHandler_Error h msg err ctx s = Error_general_path h msg err ctx s"
  unfolding AlertServiceHandler_Error_def Error_general_path_eq Logger_Error_def Let_def
  using fast_path_fields [of ctx err] by simp

lemma KapacitorHandler_Error_eq:
  "KapacitorHandler_Error h msg err ctx s = Error_general_path h msg err ctx s"
  unfolding KapacitorHandler_Error_def Error_general_path_eq Logger_Error_def Let_def
  using fast_path_fields [of ctx err] by simp

lemma TaskStoreHandler_Error_eq:
  "TaskStoreHandler_Error h msg err ctx s = Error_general_path h msg err ctx s"
  unfolding TaskStoreHandler_Error_def Error_general_path_eq Logger_Error_def Let_def
  using fast_path_fields [of ctx err] by simp

lemma Error_ctx_methods_eq:
  "Err \<in> set Error_ctx_methods \<Longrightarrow> Err h msg err ctx s = Error_general_path h msg err ctx s"
  by (auto simp: Error_ctx_methods_def AlertServiceHandler_Error_eq KapacitorHandler_Error_eq
      TaskStoreHandler_Error_eq)

lemmas event_defs =
  AlertServiceHandler_MigratingHandlerSpecs_def AlertServiceHandler_MigratingOldHandlerSpec_def
  AlertServiceHandler_FoundHandlerRows_def AlertServiceHandler_CreatingNewHandlers_def
  AlertServiceHandler_FoundNewHandler_def
  KapacitorHandler_TaskMasterOpened_def KapacitorHandler_TaskMasterClosed_def
  KapacitorHandler_StartingTask_def KapacitorHandler_StartedTask_def
  KapacitorHandler_StoppedTask_def KapacitorHandler_StoppedTaskWithError_def
  KapacitorHandler_TaskMasterDot_def KapacitorHandler_ClosingEdge_def
  KapacitorHandler_AlertTriggered_def KapacitorHandler_SettingReplicas_def
  KapacitorHandler_StartingBatchQuery_def KapacitorHandler_CannotPerformDerivative_def
  KapacitorHandler_MissingTagForFlattenOp_def KapacitorHandler_IndexOutOfRangeForRow_def
  KapacitorHandler_LoopbackWriteFailed_def KapacitorHandler_UDFLog_def
  AlertaHandler_TemplateError_def AlertaHandler_Error_def HipChatHandler_Error_def
  HTTPDHandler_StartingService_def HTTPDHandler_StoppedService_def
  HTTPDHandler_ShutdownTimeout_def HTTPDHandler_AuthenticationEnabled_def
  HTTPDHandler_ListeningOn_def HTTPDHandler_WriteBodyReceived_def HTTPDHandler_HTTP_def
  HTTPDHandler_RecoveryError_def HTTPDHandler_Error_def
  ReportingHandler_Error_def PagerDutyHandler_Error_def SlackHandler_InsecureSkipVerify_def
  SlackHandler_Error_def StorageHandler_Error_def
  TaskStoreHandler_StartingTask_def TaskStoreHandler_StartedTask_def
  TaskStoreHandler_FinishedTask_def TaskStoreHandler_Debug_def
  TaskStoreHandler_AlreadyMigrated_def TaskStoreHandler_Migrated_def
  VictorOpsHandler_Error_def UDFServiceHandler_LoadedUDFInfo_def

lemmas Error_ctx_eqs =
  AlertServiceHandler_Error_eq KapacitorHandler_Error_eq TaskStoreHandler_Error_eq
  Error_general_path_eq

lemma LogData_eq:
  "KapacitorHandler_LogData h lvl prefix data s =
     map_option
       (\<lambda>C. s\<lparr>out := out s @
               (if lvl = ''info''
                then [record_of InfoLevel ''listing data'' C
                        [zap_String ''prefix'' prefix, zap_String ''data'' data],
                      record_of InfoLevel ''listing data'' C
                        [zap_String ''prefix'' prefix, zap_String ''data'' data]]
                else [record_of InfoLevel ''listing data'' C
                        [zap_String ''prefix'' prefix, zap_String ''data'' data]])\<rparr>)
       (handler_context s h)"
  by (cases "handler_context s h")
     (simp_all add: KapacitorHandler_LogData_def Logger_Info_def log_event)

lemma invoke_emits:
  "\<exists>es. es \<noteq> [] \<and>
     (\<forall>h s. invoke c h s =
       map_option (\<lambda>C. s\<lparr>out := out s @ map (\<lambda>(lv, msg, fs). record_of lv msg C fs) es\<rparr>)
         (handler_context s h))"
proof (cases c)
  case (Call_Kapacitor_LogData lvl p d)
  show ?thesis
  proof (cases "lvl = ''info''")
    case True
    with Call_Kapacitor_LogData show ?thesis
      by (intro exI [of _ "[(InfoLevel, ''listing data'', [zap_String ''prefix'' p, zap_String ''data'' d]),
                            (InfoLevel, ''listing data'', [zap_String ''prefix'' p, zap_String ''data'' d])]"])
         (simp add: LogData_eq)
  next
    case False
    with Call_Kapacitor_LogData show ?thesis
      by (intro exI [of _ "[(InfoLevel, ''listing data'', [zap_String ''prefix'' p, zap_String ''data'' d])]"])
         (simp add: LogData_eq)
  qed
qed ((rule exI [of _ "[(lv, msg, fs)]" for lv msg fs], intro conjI allI, simp,
      simp add: event_defs Error_ctx_eqs Logger_defs log_event)+)

lemma derive_simps [simp]:
  "loggers (derive t D s) = loggers s @ [D]"
  "handlers (derive t D s) = handlers s @ [\<lparr>htype = t, h_l = length (loggers s)\<rparr>]"
  "out (derive t D s) = out s"
  by (simp_all add: derive_def)

lemma handler_context_derive_old:
  "handler_context s h = Some C \<Longrightarrow> handler_context (derive t D s) h = Some C"
  by (auto simp: handler_context_def deref_def nth_append split: bind_splits if_splits)

lemma handler_context_derive_new:
  "handler_context (derive t D s) (length (handlers s)) = Some D"
  by (simp add: handler_context_def deref_def)

lemma handler_context_live:
  "handler_context s h = Some C \<Longrightarrow> h < length (handlers s)"
  by (auto simp: handler_context_def deref_def split: bind_splits if_splits)

lemma bind_context:
  "deref s h \<bind> (\<lambda>hv. Logger_With (h_l hv) fs s \<bind> (\<lambda>(lg, s'). Some (new_handler t lg s'))) =
     map_option (\<lambda>C. (length (handlers s), derive t (C @ fs) s)) (handler_context s h)"
  by (auto simp: handler_context_def Logger_With_def new_handler_def derive_def
      split: bind_splits if_splits)

lemmas WithContext_defs =
  AlertServiceHandler_WithHandlerContext_def AlertaHandler_WithContext_def
  HipChatHandler_WithContext_def PagerDutyHandler_WithContext_def
  SlackHandler_WithContext_def VictorOpsHandler_WithContext_def

lemma WithContext_methods_eq:
  "WC \<in> set WithContext_methods \<Longrightarrow>
   \<exists>t. \<forall>h ctx s. WC h ctx s =
     map_option (\<lambda>C. (length (handlers s), derive t (C @ map String_of ctx) s))
       (handler_context s h)"
  unfolding WithContext_methods_def
  by (auto simp: WithContext_defs Let_def range_append_eq bind_context)

lemma factory_eq:
  "Logger_With lg fs s \<bind> (\<lambda>(lg', s'). Some (new_handler t lg' s')) =
     (if lg < length (loggers s)
      then Some (length (handlers s), derive t (loggers s ! lg @ fs) s) else None)"
  by (simp add: Logger_With_def new_handler_def derive_def)

lemma emitted_context:
  "\<exists>rs. rs \<noteq> [] \<and>
     (\<forall>h s. emitted c h s =
        map_option (\<lambda>C. map (\<lambda>(lv, msg, fs). record_of lv msg C fs) rs) (handler_context s h))"
proof -
  obtain rs where rs: "rs \<noteq> []"
    and inv: "\<And>h s. invoke c h s =
       map_option (\<lambda>C. s\<lparr>out := out s @ map (\<lambda>(lv, msg, fs). record_of lv msg C fs) rs\<rparr>)
         (handler_context s h)"
    using invoke_emits [of c] by blast
  have "\<forall>h s. emitted c h s =
        map_option (\<lambda>C. map (\<lambda>(lv, msg, fs). record_of lv msg C fs) rs) (handler_context s h)"
    by (simp add: emitted_def inv option.map_comp comp_def)
  with rs show ?thesis by blast
qed

lemma emitted_bound:
  assumes "handler_context s h = Some C"
  shows "\<exists>es. emitted c h s = Some es \<and> es \<noteq> [] \<and> (\<forall>e\<in>set es. bound e = C)"
proof -
  from emitted_context [of c] obtain rs where rs: "rs \<noteq> []"
    and em: "\<And>h s. emitted c h s =
        map_option (\<lambda>C. map (\<lambda>(lv, msg, fs). record_of lv msg C fs) rs) (handler_context s h)"
    by blast
  have "emitted c h s = Some (map (\<lambda>(lv, msg, fs). record_of lv msg C fs) rs)"
    by (simp add: em assms)
  moreover have "\<forall>e\<in>set (map (\<lambda>(lv, msg, fs). record_of lv msg C fs) rs). bound e = C"
    by (auto simp: record_of_def)
  ultimately show ?thesis using rs by auto
qed

lemma emitted_cong:
  assumes "handler_context s h = handler_context s' h'"
  shows "emitted c h s = emitted c h' s'"
proof -
  from emitted_context [of c] obtain rs where
    em: "\<And>h s. emitted c h s =
        map_option (\<lambda>C. map (\<lambda>(lv, msg, fs). record_of lv msg C fs) rs) (handler_context s h)"
    by blast
  show ?thesis by (simp add: em assms)
qed

lemma example_eq:
  "example t name =
     \<lparr>loggers = [[], [zap_String ''service'' name]],
      handlers = [\<lparr>htype = t, h_l = 1\<rparr>], out = []\<rparr>"
  by (simp add: example_def derive_def NewService_def zap_NewExample_def init_def)

lemma example_context: "handler_context (example t name) 0 = Some [zap_String ''service'' name]"
  by (simp add: example_eq handler_context_def deref_def)

lemma invoke_context:
  assumes "invoke c h' s = Some s'"
  shows "handler_context s' h = handler_context s h"
proof -
  obtain rs where
    inv: "\<And>h s. invoke c h s =
       map_option (\<lambda>C. s\<lparr>out := out s @ map (\<lambda>(lv, msg, fs). record_of lv msg C fs) rs\<rparr>)
         (handler_context s h)"
    using invoke_emits [of c] by blast
  from assms show ?thesis unfolding inv by auto
qed

lemma run_context:
  "run cs s = Some s' \<Longrightarrow> handler_context s' h = handler_context s h"
proof (induction cs arbitrary: s)
  case Nil
  then show ?case by simp
next
  case (Cons x cs)
  obtain c h' where x: "x = (c, h')" by (cases x)
  from Cons.prems x obtain s1 where
    s1: "invoke c h' s = Some s1" and rest: "run cs s1 = Some s'"
    by (auto split: bind_splits)
  from Cons.IH [OF rest] invoke_context [OF s1] show ?case by simp
qed

lemma later_events:
  assumes "handler_context s h = Some C"
  shows "\<forall>cs s' c. run cs s = Some s' \<longrightarrow>
           emitted c h s' = emitted c h s \<and>
           (\<exists>es. emitted c h s' = Some es \<and> es \<noteq> [] \<and> (\<forall>e\<in>set es. bound e = C))"
proof (intro allI impI)
  fix cs s' c
  assume "run cs s = Some s'"
  then have same: "handler_context s' h = handler_context s h" by (rule run_context)
  then have "emitted c h s' = emitted c h s" by (rule emitted_cong)
  moreover from same assms have "handler_context s' h = Some C" by simp
  then have "\<exists>es. emitted c h s' = Some es \<and> es \<noteq> [] \<and> (\<forall>e\<in>set es. bound e = C)"
    by (rule emitted_bound)
  ultimately show "emitted c h s' = emitted c h s \<and>
      (\<exists>es. emitted c h s' = Some es \<and> es \<noteq> [] \<and> (\<forall>e\<in>set es. bound e = C))" ..
qed

lemma unaffected:
  assumes "handler_context s h = Some C" and "handler_context s2 h = Some C"
  shows "\<forall>cs s3 c. run cs s2 = Some s3 \<longrightarrow>
           emitted c h s3 = emitted c h s \<and>
           (\<exists>es. emitted c h s3 = Some es \<and> es \<noteq> [] \<and> (\<forall>e\<in>set es. bound e = C))"
proof (intro allI impI)
  fix cs s3 c
  assume r: "run cs s2 = Some s3"
  have base: "emitted c h s2 = emitted c h s" by (rule emitted_cong) (simp add: assms)
  from later_events [OF assms(2)] r
  have "emitted c h s3 = emitted c h s2"
    and ex: "\<exists>es. emitted c h s3 = Some es \<and> es \<noteq> [] \<and> (\<forall>e\<in>set es. bound e = C)"
    by blast+
  with base have "emitted c h s3 = emitted c h s" by (simp only:)
  then show "emitted c h s3 = emitted c h s \<and>
      (\<exists>es. emitted c h s3 = Some es \<and> es \<noteq> [] \<and> (\<forall>e\<in>set es. bound e = C))"
    using ex by (rule conjI)
qed

lemma WithContext_step:
  assumes "WC \<in> set WithContext_methods"
  shows "\<exists>t. \<forall>h ctx s C. handler_context s h = Some C \<longrightarrow>
       WC h ctx s = Some (length (handlers s), derive t (C @ map String_of ctx) s)"
proof -
  from WithContext_methods_eq [OF assms] obtain t where
    "\<forall>h ctx s. WC h ctx s =
       map_option (\<lambda>C. (length (handlers s), derive t (C @ map String_of ctx) s))
         (handler_context s h)" ..
  then have "\<forall>h ctx s C. handler_context s h = Some C \<longrightarrow>
       WC h ctx s = Some (length (handlers s), derive t (C @ map String_of ctx) s)"
    by simp
  then show ?thesis ..
qed

lemma other_events_emit_once:
  assumes "handler_context s h = Some C"
    and "\<forall>prefix data. c \<noteq> Call_Kapacitor_LogData ''info'' prefix data"
  shows "\<exists>e. emitted c h s = Some [e]"
proof (cases c)
  case (Call_Kapacitor_LogData lvl p d)
  with assms(2) have "lvl \<noteq> ''info''" by auto
  with Call_Kapacitor_LogData show ?thesis
    by (simp add: emitted_def LogData_eq assms(1))
qed (simp_all add: emitted_def event_defs Error_ctx_eqs Logger_defs log_event assms(1))

lemma KapacitorHandler_named_contexts:
  assumes "handler_context s h = Some C"
  shows "KapacitorHandler_WithTaskContext h task s =
           Some (length (handlers s), derive KapacitorHandler (C @ [zap_String ''task'' task]) s)"
    and "KapacitorHandler_WithTaskMasterContext h tm s =
           Some (length (handlers s),
                 derive KapacitorHandler (C @ [zap_String ''task_master'' tm]) s)"
    and "KapacitorHandler_WithNodeContext h node s =
           Some (length (handlers s), derive KapacitorHandler (C @ [zap_String ''node'' node]) s)"
    and "KapacitorHandler_WithEdgeContext h task parent child s =
           Some (length (handlers s),
                 derive KapacitorHandler
                   (C @ [zap_String ''task'' task, zap_String ''parent'' parent,
                         zap_String ''child'' child]) s)"
  by (simp_all add: KapacitorHandler_WithTaskContext_def KapacitorHandler_WithTaskMasterContext_def
      KapacitorHandler_WithNodeContext_def KapacitorHandler_WithEdgeContext_def bind_context assms)

section \<open>The claims\<close>

text \<open>
  Claim C1. For each of the three \<open>Error\<close> methods that take a context list
  (\<open>AlertServiceHandler\<close>, \<open>KapacitorHandler\<close>, \<open>TaskStoreHandler\<close>), every message,
  error value and context list of any length: the call does exactly what the general
  allocation path alone would do, the general path builds the error field followed by one
  string field per pair in order, and on a live handler the call appends the one
  error-severity record with these fields. The paths for zero, one and two pairs cannot be
  told apart from the general path.
\<close>

theorem Error_paths_agree:
  assumes "Err \<in> set Error_ctx_methods"
  shows "Err h msg err ctx s = Error_general_path h msg err ctx s \<and>
         general_fields err ctx = Some (error_fields_spec err ctx) \<and>
         Err h msg err ctx s =
           map_option (\<lambda>C. s\<lparr>out := out s @ [record_of ErrorLevel msg C (error_fields_spec err ctx)]\<rparr>)
             (handler_context s h)"
  using assms
  by (simp add: Error_ctx_methods_eq Error_general_path_eq log_event general_fields_eq)

theorem Error_paths_agree_witness:
  "TaskStoreHandler_Error \<in> set Error_ctx_methods \<and>
   TaskStoreHandler_Error 0 ''save failed'' (Some ''disk full'')
       [\<lparr>Key = ''a'', Value = ''1''\<rparr>, \<lparr>Key = ''b'', Value = ''2''\<rparr>, \<lparr>Key = ''a'', Value = ''3''\<rparr>]
       (example TaskStoreHandler ''task_store'') =
     Error_general_path 0 ''save failed'' (Some ''disk full'')
       [\<lparr>Key = ''a'', Value = ''1''\<rparr>, \<lparr>Key = ''b'', Value = ''2''\<rparr>, \<lparr>Key = ''a'', Value = ''3''\<rparr>]
       (example TaskStoreHandler ''task_store'') \<and>
   TaskStoreHandler_Error 0 ''save failed'' (Some ''disk full'')
       [\<lparr>Key = ''a'', Value = ''1''\<rparr>, \<lparr>Key = ''b'', Value = ''2''\<rparr>, \<lparr>Key = ''a'', Value = ''3''\<rparr>]
       (example TaskStoreHandler ''task_store'') =
     Some ((example TaskStoreHandler ''task_store'')
       \<lparr>out := [\<lparr>entry_level = ErrorLevel, entry_message = ''save failed'',
                 bound = [zap_String ''service'' ''task_store''],
                 call_fields = [zap_Error (Some ''disk full''), zap_String ''a'' ''1'',
                                zap_String ''b'' ''2'', zap_String ''a'' ''3'']\<rparr>]\<rparr>)"
  using Error_paths_agree [of TaskStoreHandler_Error 0 "''save failed''" "Some ''disk full''"
      "[\<lparr>Key = ''a'', Value = ''1''\<rparr>, \<lparr>Key = ''b'', Value = ''2''\<rparr>, \<lparr>Key = ''a'', Value = ''3''\<rparr>]"
      "example TaskStoreHandler ''task_store''"]
  by (auto simp: Error_ctx_methods_def example_eq handler_context_def deref_def
      error_fields_spec_def String_of_def record_of_def)

text \<open>
  Claim C2. For each of the six context-binding methods, every live handler \<open>h\<close> with
  bound fields \<open>C\<close> and all pair lists \<open>F1\<close> and \<open>F2\<close>: binding \<open>F1\<close> and then \<open>F2\<close>
  succeeds, and after any later sequence of event calls every event call on the handler
  derived last emits at least one record, each with the bound fields \<open>C\<close>, then
  \<open>F1\<close>, then \<open>F2\<close>, all of them, in that order, duplicates kept; every event call on
  \<open>h\<close> itself still emits the records it would have emitted before the two bindings,
  whose bound fields are \<open>C\<close> alone.
\<close>

theorem WithContext_twice:
  assumes "WC \<in> set WithContext_methods" and "handler_context s h = Some C"
  shows "\<exists>h1 s1 h2 s2.
      WC h F1 s = Some (h1, s1) \<and> WC h1 F2 s1 = Some (h2, s2) \<and>
      handler_context s2 h2 = Some (C @ map String_of F1 @ map String_of F2) \<and>
      handler_context s2 h = Some C \<and>
      (\<forall>cs s3 c. run cs s2 = Some s3 \<longrightarrow>
         (\<exists>es. emitted c h2 s3 = Some es \<and> es \<noteq> [] \<and>
            (\<forall>e\<in>set es. bound e = C @ map String_of F1 @ map String_of F2))) \<and>
      (\<forall>cs s3 c. run cs s2 = Some s3 \<longrightarrow>
         emitted c h s3 = emitted c h s \<and>
         (\<exists>es. emitted c h s3 = Some es \<and> es \<noteq> [] \<and> (\<forall>e\<in>set es. bound e = C)))"
proof -
  from WithContext_step [OF assms(1)] obtain t where
    wc': "\<forall>h ctx s C. handler_context s h = Some C \<longrightarrow>
       WC h ctx s = Some (length (handlers s), derive t (C @ map String_of ctx) s)" ..
  note wc = wc' [rule_format]
  let ?h1 = "length (handlers s)"
  let ?s1 = "derive t (C @ map String_of F1) s"
  let ?h2 = "length (handlers ?s1)"
  let ?s2 = "derive t ((C @ map String_of F1) @ map String_of F2) ?s1"
  have c1: "handler_context ?s1 ?h1 = Some (C @ map String_of F1)"
    by (rule handler_context_derive_new)
  have step1: "WC h F1 s = Some (?h1, ?s1)" by (rule wc [OF assms(2)])
  have step2: "WC ?h1 F2 ?s1 = Some (?h2, ?s2)" by (rule wc [OF c1])
  have c2: "handler_context ?s2 ?h2 = Some (C @ map String_of F1 @ map String_of F2)"
    using handler_context_derive_new [of t "(C @ map String_of F1) @ map String_of F2" ?s1]
    by simp
  have c0: "handler_context ?s2 h = Some C"
    by (intro handler_context_derive_old assms(2))
  from step1 step2 c2 c0 later_events [OF c2] unaffected [OF assms(2) c0]
  show ?thesis by blast
qed

theorem WithContext_twice_witness:
  "AlertaHandler_WithContext \<in> set WithContext_methods \<and>
   handler_context (example AlertaHandler ''alerta'') 0 = Some [zap_String ''service'' ''alerta''] \<and>
   (\<exists>h1 s1 h2 s2.
      AlertaHandler_WithContext 0 [\<lparr>Key = ''alert'', Value = ''cpu''\<rparr>, \<lparr>Key = ''alert'', Value = ''cpu''\<rparr>] (example AlertaHandler ''alerta'') = Some (h1, s1) \<and> AlertaHandler_WithContext h1 [\<lparr>Key = ''topic'', Value = ''ops''\<rparr>] s1 = Some (h2, s2) \<and>
      handler_context s2 h2 = Some ([zap_String ''service'' ''alerta''] @ map String_of [\<lparr>Key = ''alert'', Value = ''cpu''\<rparr>, \<lparr>Key = ''alert'', Value = ''cpu''\<rparr>] @ map String_of [\<lparr>Key = ''topic'', Value = ''ops''\<rparr>]) \<and>
      handler_context s2 0 = Some [zap_String ''service'' ''alerta''] \<and>
      (\<forall>cs s3 c. run cs s2 = Some s3 \<longrightarrow>
         (\<exists>es. emitted c h2 s3 = Some es \<and> es \<noteq> [] \<and>
            (\<forall>e\<in>set es. bound e = [zap_String ''service'' ''alerta''] @ map String_of [\<lparr>Key = ''alert'', Value = ''cpu''\<rparr>, \<lparr>Key = ''alert'', Value = ''cpu''\<rparr>] @ map String_of [\<lparr>Key = ''topic'', Value = ''ops''\<rparr>]))) \<and>
      (\<forall>cs s3 c. run cs s2 = Some s3 \<longrightarrow>
         emitted c 0 s3 = emitted c 0 (example AlertaHandler ''alerta'') \<and>
         (\<exists>es. emitted c 0 s3 = Some es \<and> es \<noteq> [] \<and> (\<forall>e\<in>set es. bound e = [zap_String ''service'' ''alerta'']))))"
proof -
  have m: "AlertaHandler_WithContext \<in> set WithContext_methods"
    by (simp add: WithContext_methods_def)
  have c: "handler_context (example AlertaHandler ''alerta'') 0 = Some [zap_String ''service'' ''alerta'']"
    by (rule example_context)
  show ?thesis
    by (rule conjI [OF m conjI [OF c WithContext_twice [OF m c]]])
qed

text \<open>
  Claim C3. Every event method emits exactly one record per call. \<open>LogData\<close> does not:
  at the level \<open>"info"\<close> the call writes the same record twice, once in the \<open>switch\<close> and
  once after it, where any other level writes it once.
\<close>

theorem LogData_info_emits_twice:
  "emitted (Call_Kapacitor_LogData ''info'' ''cpu'' ''42'') 0
       (example KapacitorHandler ''kapacitor'') =
     Some [record_of InfoLevel ''listing data'' [zap_String ''service'' ''kapacitor'']
             [zap_String ''prefix'' ''cpu'', zap_String ''data'' ''42''],
           record_of InfoLevel ''listing data'' [zap_String ''service'' ''kapacitor'']
             [zap_String ''prefix'' ''cpu'', zap_String ''data'' ''42'']] \<and>
   emitted (Call_Kapacitor_LogData ''debug'' ''cpu'' ''42'') 0
       (example KapacitorHandler ''kapacitor'') =
     Some [record_of InfoLevel ''listing data'' [zap_String ''service'' ''kapacitor'']
             [zap_String ''prefix'' ''cpu'', zap_String ''data'' ''42'']]"
  by (simp add: emitted_def LogData_eq example_context)

text \<open>
  Claim C4, as amended. On a live handler with bound fields \<open>C\<close>, \<open>AlreadyMigrated(entity, id)\<close>
  and \<open>Migrated(entity, id)\<close> each append exactly one debug-severity record, and its only
  call field is the string field whose key is the entity kind and whose value is the
  identifier.
\<close>

theorem migration_events:
  assumes "handler_context s h = Some C"
  shows "TaskStoreHandler_AlreadyMigrated h entity id' s =
           Some (s\<lparr>out := out s @
             [record_of DebugLevel ''entity has already been migrated skipping'' C
                [zap_String entity id']]\<rparr>) \<and>
         TaskStoreHandler_Migrated h entity id' s =
           Some (s\<lparr>out := out s @
             [record_of DebugLevel ''entity was migrated to new storage service'' C
                [zap_String entity id']]\<rparr>)"
  by (simp add: TaskStoreHandler_AlreadyMigrated_def TaskStoreHandler_Migrated_def
      Logger_Debug_def log_event assms)

theorem migration_events_witness:
  "handler_context (example TaskStoreHandler ''task_store'') 0 =
     Some [zap_String ''service'' ''task_store''] \<and>
   TaskStoreHandler_AlreadyMigrated 0 ''task'' ''t1'' (example TaskStoreHandler ''task_store'') =
     Some ((example TaskStoreHandler ''task_store'')
       \<lparr>out := out (example TaskStoreHandler ''task_store'') @
          [record_of DebugLevel ''entity has already been migrated skipping''
             [zap_String ''service'' ''task_store''] [zap_String ''task'' ''t1'']]\<rparr>) \<and>
   TaskStoreHandler_Migrated 0 ''task'' ''t1'' (example TaskStoreHandler ''task_store'') =
     Some ((example TaskStoreHandler ''task_store'')
       \<lparr>out := out (example TaskStoreHandler ''task_store'') @
          [record_of DebugLevel ''entity was migrated to new storage service''
             [zap_String ''service'' ''task_store''] [zap_String ''task'' ''t1'']]\<rparr>)"
  using migration_events [OF example_context [of TaskStoreHandler "''task_store''"],
      of "''task''" "''t1''"]
  by (simp add: example_context)

text \<open>
  The claim as stated fails: the record of \<open>AlreadyMigrated("task", "t1")\<close> and of
  \<open>Migrated("task", "t1")\<close> has one call field, \<open>task = "t1"\<close>, not one field for the entity
  kind and another for the identifier.
\<close>

theorem migration_two_fields_counterexample:
  "emitted (Call_TaskStore_AlreadyMigrated ''task'' ''t1'') 0
       (example TaskStoreHandler ''task_store'') =
     Some [record_of DebugLevel ''entity has already been migrated skipping''
             [zap_String ''service'' ''task_store''] [zap_String ''task'' ''t1'']] \<and>
   emitted (Call_TaskStore_Migrated ''task'' ''t1'') 0
       (example TaskStoreHandler ''task_store'') =
     Some [record_of DebugLevel ''entity was migrated to new storage service''
             [zap_String ''service'' ''task_store''] [zap_String ''task'' ''t1'']] \<and>
   length (call_fields (record_of DebugLevel ''entity has already been migrated skipping''
             [zap_String ''service'' ''task_store''] [zap_String ''task'' ''t1''])) \<noteq> 2 \<and>
   length (call_fields (record_of DebugLevel ''entity was migrated to new storage service''
             [zap_String ''service'' ''task_store''] [zap_String ''task'' ''t1''])) \<noteq> 2"
  by (simp add: emitted_def TaskStoreHandler_AlreadyMigrated_def TaskStoreHandler_Migrated_def
      Logger_Debug_def log_event example_context record_of_def)

text \<open>
  Claim C5. On a live handler with bound fields \<open>C\<close>, for every value of the eleven
  arguments, \<open>HTTP\<close> appends exactly one info-severity record whose call fields are host,
  username, start, method, uri, protocol, status, referer, user-agent, request-id and
  duration, in this order. An empty string is a value like any other: its field is there.
\<close>

theorem HTTP_access_record:
  assumes "handler_context s h = Some C"
  shows "HTTPDHandler_HTTP h host username start method uri proto status referer userAgent
           reqID duration s =
         Some (s\<lparr>out := out s @
           [record_of InfoLevel ''???'' C
              [zap_String ''host'' host, zap_String ''username'' username,
               zap_Time ''start'' start, zap_String ''method'' method,
               zap_String ''uri'' uri, zap_String ''protocol'' proto,
               zap_Int ''status'' status, zap_String ''referer'' referer,
               zap_String ''user-agent'' userAgent, zap_String ''request-id'' reqID,
               zap_Duration ''duration'' duration]]\<rparr>)"
  by (simp add: HTTPDHandler_HTTP_def Logger_Info_def log_event assms)

theorem HTTP_access_record_witness:
  "handler_context (example HTTPDHandler ''http'') 0 = Some [zap_String ''service'' ''http''] \<and>
   HTTPDHandler_HTTP 0 ''10.0.0.1'' ''admin'' 1500000000 ''GET'' ''/ping'' ''HTTP/1.1'' 204
       '''' ''curl'' ''r-1'' 1200 (example HTTPDHandler ''http'') =
     Some ((example HTTPDHandler ''http'')
       \<lparr>out := out (example HTTPDHandler ''http'') @
          [record_of InfoLevel ''???'' [zap_String ''service'' ''http'']
             [zap_String ''host'' ''10.0.0.1'', zap_String ''username'' ''admin'',
              zap_Time ''start'' 1500000000, zap_String ''method'' ''GET'',
              zap_String ''uri'' ''/ping'', zap_String ''protocol'' ''HTTP/1.1'',
              zap_Int ''status'' 204, zap_String ''referer'' '''',
              zap_String ''user-agent'' ''curl'', zap_String ''request-id'' ''r-1'',
              zap_Duration ''duration'' 1200]]\<rparr>)"
  using HTTP_access_record [OF example_context [of HTTPDHandler "''http''"], of "''10.0.0.1''"
      "''admin''" 1500000000 "''GET''" "''/ping''" "''HTTP/1.1''" 204 "''''" "''curl''"
      "''r-1''" 1200]
  by (simp add: example_context)

text \<open>
  Claim C6. For each of the six context-binding methods, every live handler \<open>h\<close> with
  bound fields \<open>C\<close> and all pair lists \<open>F\<close> and \<open>G\<close>: after \<open>a := h.WithContext(F)\<close> and
  \<open>b := h.WithContext(G)\<close>, and after any later sequence of event calls, an event call on
  \<open>h\<close> emits the records it would have emitted before the two derivations; each has the
  bound fields \<open>C\<close> and no others, so no field of \<open>F\<close> or \<open>G\<close> is bound in it unless \<open>h\<close>
  was bound to that field already. The siblings keep their own fields as well: \<open>a\<close> is
  bound to \<open>C\<close> and \<open>F\<close>, \<open>b\<close> to \<open>C\<close> and \<open>G\<close>.
\<close>

theorem siblings_independent:
  assumes "WC \<in> set WithContext_methods" and "handler_context s h = Some C"
  shows "\<exists>a s1 b s2.
      WC h F s = Some (a, s1) \<and> WC h G s1 = Some (b, s2) \<and>
      handler_context s2 h = Some C \<and>
      handler_context s2 a = Some (C @ map String_of F) \<and>
      handler_context s2 b = Some (C @ map String_of G) \<and>
      (\<forall>cs s3 c. run cs s2 = Some s3 \<longrightarrow>
         emitted c h s3 = emitted c h s \<and>
         (\<exists>es. emitted c h s3 = Some es \<and> es \<noteq> [] \<and>
            (\<forall>e\<in>set es. bound e = C \<and>
               (\<forall>f\<in>set (map String_of F) \<union> set (map String_of G).
                  f \<notin> set C \<longrightarrow> f \<notin> set (bound e)))))"
proof -
  from WithContext_step [OF assms(1)] obtain t where
    wc': "\<forall>h ctx s C. handler_context s h = Some C \<longrightarrow>
       WC h ctx s = Some (length (handlers s), derive t (C @ map String_of ctx) s)" ..
  note wc = wc' [rule_format]
  let ?a = "length (handlers s)"
  let ?s1 = "derive t (C @ map String_of F) s"
  let ?b = "length (handlers ?s1)"
  let ?s2 = "derive t (C @ map String_of G) ?s1"
  have ca: "handler_context ?s1 ?a = Some (C @ map String_of F)"
    by (rule handler_context_derive_new)
  have c1: "handler_context ?s1 h = Some C"
    by (intro handler_context_derive_old assms(2))
  have step1: "WC h F s = Some (?a, ?s1)" by (rule wc [OF assms(2)])
  have step2: "WC h G ?s1 = Some (?b, ?s2)" by (rule wc [OF c1])
  have c0: "handler_context ?s2 h = Some C"
    by (intro handler_context_derive_old c1)
  have ca2: "handler_context ?s2 ?a = Some (C @ map String_of F)"
    by (intro handler_context_derive_old ca)
  have cb: "handler_context ?s2 ?b = Some (C @ map String_of G)"
    by (rule handler_context_derive_new)
  have ev: "\<forall>cs s3 c. run cs ?s2 = Some s3 \<longrightarrow>
         emitted c h s3 = emitted c h s \<and>
         (\<exists>es. emitted c h s3 = Some es \<and> es \<noteq> [] \<and>
            (\<forall>e\<in>set es. bound e = C \<and>
               (\<forall>f\<in>set (map String_of F) \<union> set (map String_of G).
                  f \<notin> set C \<longrightarrow> f \<notin> set (bound e))))"
  proof (intro allI impI)
    fix cs s3 c
    assume "run cs ?s2 = Some s3"
    with unaffected [OF assms(2) c0] obtain es where
      "emitted c h s3 = emitted c h s"
      "emitted c h s3 = Some es" "es \<noteq> []" "\<forall>e\<in>set es. bound e = C" by blast
    then show "emitted c h s3 = emitted c h s \<and>
         (\<exists>es. emitted c h s3 = Some es \<and> es \<noteq> [] \<and>
            (\<forall>e\<in>set es. bound e = C \<and>
               (\<forall>f\<in>set (map String_of F) \<union> set (map String_of G).
                  f \<notin> set C \<longrightarrow> f \<notin> set (bound e))))"
      by (intro conjI exI [of _ es]) simp_all
  qed
  from step1 step2 c0 ca2 cb ev show ?thesis by blast
qed

theorem siblings_independent_witness:
  "SlackHandler_WithContext \<in> set WithContext_methods \<and>
   handler_context (example SlackHandler ''slack'') 0 = Some [zap_String ''service'' ''slack''] \<and>
   (\<exists>a s1 b s2.
      SlackHandler_WithContext 0 [\<lparr>Key = ''channel'', Value = ''#a''\<rparr>] (example SlackHandler ''slack'') = Some (a, s1) \<and> SlackHandler_WithContext 0 [\<lparr>Key = ''channel'', Value = ''#b''\<rparr>] s1 = Some (b, s2) \<and>
      handler_context s2 0 = Some [zap_String ''service'' ''slack''] \<and>
      handler_context s2 a = Some ([zap_String ''service'' ''slack''] @ map String_of [\<lparr>Key = ''channel'', Value = ''#a''\<rparr>]) \<and>
      handler_context s2 b = Some ([zap_String ''service'' ''slack''] @ map String_of [\<lparr>Key = ''channel'', Value = ''#b''\<rparr>]) \<and>
      (\<forall>cs s3 c. run cs s2 = Some s3 \<longrightarrow>
         emitted c 0 s3 = emitted c 0 (example SlackHandler ''slack'') \<and>
         (\<exists>es. emitted c 0 s3 = Some es \<and> es \<noteq> [] \<and>
            (\<forall>e\<in>set es. bound e = [zap_String ''service'' ''slack''] \<and>
               (\<forall>f\<in>set (map String_of [\<lparr>Key = ''channel'', Value = ''#a''\<rparr>]) \<union> set (map String_of [\<lparr>Key = ''channel'', Value = ''#b''\<rparr>]).
                  f \<notin> set [zap_String ''service'' ''slack''] \<longrightarrow> f \<notin> set (bound e))))))"
proof -
  have m: "SlackHandler_WithContext \<in> set WithContext_methods"
    by (simp add: WithContext_methods_def)
  have c: "handler_context (example SlackHandler ''slack'') 0 = Some [zap_String ''service'' ''slack'']"
    by (rule example_context)
  show ?thesis
    by (rule conjI [OF m conjI [OF c siblings_independent [OF m c]]])
qed

text \<open>
  Claim C7, as amended. For each of the three \<open>Error\<close> methods that take a context list,
  every live handler with bound fields \<open>C\<close> and every error value that is not \<open>nil\<close>, with
  description \<open>d\<close>: the call \<open>Error("write failed", err, [("attempt", "3")])\<close> appends
  exactly one record, of error severity, with the message \<open>"write failed"\<close> and the call
  fields \<open>error = d\<close> followed by \<open>attempt = "3"\<close>, both of them written.
\<close>

theorem Error_write_failed:
  assumes "Err \<in> set Error_ctx_methods" and "handler_context s h = Some C"
  shows "Err h ''write failed'' (Some d) [\<lparr>Key = ''attempt'', Value = ''3''\<rparr>] s =
         Some (s\<lparr>out := out s @
           [\<lparr>entry_level = ErrorLevel, entry_message = ''write failed'', bound = C,
             call_fields = [Field_error d, zap_String ''attempt'' ''3'']\<rparr>]\<rparr>) \<and>
         written [Field_error d, zap_String ''attempt'' ''3''] =
           [Field_error d, zap_String ''attempt'' ''3'']"
  using assms
  by (simp add: Error_ctx_methods_eq Error_general_path_eq log_event record_of_def
      error_fields_spec_def String_of_def zap_Error_def written_def)

theorem Error_write_failed_witness:
  "KapacitorHandler_Error \<in> set Error_ctx_methods \<and>
   handler_context (example KapacitorHandler ''kapacitor'') 0 =
     Some [zap_String ''service'' ''kapacitor''] \<and>
   (KapacitorHandler_Error 0 ''write failed'' (Some ''connection refused'')
       [\<lparr>Key = ''attempt'', Value = ''3''\<rparr>] (example KapacitorHandler ''kapacitor'') =
     Some ((example KapacitorHandler ''kapacitor'')
       \<lparr>out := out (example KapacitorHandler ''kapacitor'') @
          [\<lparr>entry_level = ErrorLevel, entry_message = ''write failed'',
            bound = [zap_String ''service'' ''kapacitor''],
            call_fields = [Field_error ''connection refused'',
                           zap_String ''attempt'' ''3'']\<rparr>]\<rparr>) \<and>
    written [Field_error ''connection refused'', zap_String ''attempt'' ''3''] =
      [Field_error ''connection refused'', zap_String ''attempt'' ''3''])"
proof -
  have m: "KapacitorHandler_Error \<in> set Error_ctx_methods"
    by (simp add: Error_ctx_methods_def)
  have c: "handler_context (example KapacitorHandler ''kapacitor'') 0 =
             Some [zap_String ''service'' ''kapacitor'']"
    by (rule example_context)
  show ?thesis
    by (rule conjI [OF m conjI [OF c Error_write_failed [OF m c]]])
qed

text \<open>
  The claim as stated, for every error value, fails at \<open>nil\<close>: the first call field is then
  the no-op field, and the record that is written carries \<open>attempt = "3"\<close> and no error
  description.
\<close>

theorem Error_write_failed_nil_counterexample:
  "KapacitorHandler_Error 0 ''write failed'' None
       [\<lparr>Key = ''attempt'', Value = ''3''\<rparr>] (example KapacitorHandler ''kapacitor'') =
     Some ((example KapacitorHandler ''kapacitor'')
       \<lparr>out := out (example KapacitorHandler ''kapacitor'') @
          [\<lparr>entry_level = ErrorLevel, entry_message = ''write failed'',
            bound = [zap_String ''service'' ''kapacitor''],
            call_fields = [zap_Skip, zap_String ''attempt'' ''3'']\<rparr>]\<rparr>) \<and>
   written [zap_Skip, zap_String ''attempt'' ''3''] = [zap_String ''attempt'' ''3'']"
  by (simp add: KapacitorHandler_Error_eq Error_general_path_eq log_event record_of_def
      error_fields_spec_def String_of_def zap_Error_def written_def example_context)

text \<open>
  Claim C8. \<open>NewService\<close> returns, in every state, a service whose root logger is live
  and has no bound fields, and writes nothing. For a service whose root logger is live, each of the eleven factory accessors returns, in every state, a
  handler in a cell that did not exist before, of the accessor's own type, whose logger is
  a new logger bound to the root's fields and then the one field \<open>service = name\<close>, with
  the names victorops, slack, task_store, reporting, storage, http, alerta, kapacitor,
  alert, hipchat and udf. The call cannot fail and changes nothing else: it writes no
  record and leaves every older handler and logger as it was (\<open>derive\<close>).
\<close>

theorem factory_accessors:
  assumes "logger svc < length (loggers s)"
  shows "logger (fst (NewService s0)) < length (loggers (snd (NewService s0))) \<and>
         loggers (snd (NewService s0)) ! logger (fst (NewService s0)) = [] \<and>
         out (snd (NewService s0)) = out s0 \<and>
         service_NewVictorOpsHandler svc s =
           Some (length (handlers s),
                 derive VictorOpsHandler (loggers s ! logger svc @ [zap_String ''service'' ''victorops'']) s) \<and>
         service_NewSlackHandler svc s =
           Some (length (handlers s),
                 derive SlackHandler (loggers s ! logger svc @ [zap_String ''service'' ''slack'']) s) \<and>
         service_NewTaskStoreHandler svc s =
           Some (length (handlers s),
                 derive TaskStoreHandler (loggers s ! logger svc @ [zap_String ''service'' ''task_store'']) s) \<and>
         service_NewReportingHandler svc s =
           Some (length (handlers s),
                 derive ReportingHandler (loggers s ! logger svc @ [zap_String ''service'' ''reporting'']) s) \<and>
         service_NewStorageHandler svc s =
           Some (length (handlers s),
                 derive StorageHandler (loggers s ! logger svc @ [zap_String ''service'' ''storage'']) s) \<and>
         service_NewHTTPDHandler svc s =
           Some (length (handlers s),
                 derive HTTPDHandler (loggers s ! logger svc @ [zap_String ''service'' ''http'']) s) \<and>
         service_NewAlertaHandler svc s =
           Some (length (handlers s),
                 derive AlertaHandler (loggers s ! logger svc @ [zap_String ''service'' ''alerta'']) s) \<and>
         service_NewKapacitorHandler svc s =
           Some (length (handlers s),
                 derive KapacitorHandler (loggers s ! logger svc @ [zap_String ''service'' ''kapacitor'']) s) \<and>
         service_NewAlertHandler svc s =
           Some (length (handlers s),
                 derive AlertHandler (loggers s ! logger svc @ [zap_String ''service'' ''alert'']) s) \<and>
         service_NewHipChatHandler svc s =
           Some (length (handlers s),
                 derive HipChatHandler (loggers s ! logger svc @ [zap_String ''service'' ''hipchat'']) s) \<and>
         service_NewUDFServiceHandler svc s =
           Some (length (handlers s),
                 derive UDFServiceHandler (loggers s ! logger svc @ [zap_String ''service'' ''udf'']) s)"
  using assms
  by (simp add: service_NewVictorOpsHandler_def service_NewSlackHandler_def
      service_NewTaskStoreHandler_def service_NewReportingHandler_def
      service_NewStorageHandler_def service_NewHTTPDHandler_def
      service_NewAlertaHandler_def service_NewKapacitorHandler_def
      service_NewAlertHandler_def service_NewHipChatHandler_def
      service_NewUDFServiceHandler_def factory_eq NewService_def zap_NewExample_def)

theorem factory_accessors_witness:
  "NewService init = (\<lparr>logger = 0\<rparr>, \<lparr>loggers = [[]], handlers = [], out = []\<rparr>) \<and>
   logger \<lparr>logger = 0\<rparr> < length (loggers \<lparr>loggers = [[]], handlers = [], out = []\<rparr>) \<and>
   service_NewTaskStoreHandler \<lparr>logger = 0\<rparr> \<lparr>loggers = [[]], handlers = [], out = []\<rparr> =
     Some (0, \<lparr>loggers = [[], [zap_String ''service'' ''task_store'']],
               handlers = [\<lparr>htype = TaskStoreHandler, h_l = 1\<rparr>], out = []\<rparr>) \<and>
   service_NewUDFServiceHandler \<lparr>logger = 0\<rparr> \<lparr>loggers = [[]], handlers = [], out = []\<rparr> =
     Some (0, \<lparr>loggers = [[], [zap_String ''service'' ''udf'']],
               handlers = [\<lparr>htype = UDFServiceHandler, h_l = 1\<rparr>], out = []\<rparr>)"
  using factory_accessors [of "\<lparr>logger = 0\<rparr>" "\<lparr>loggers = [[]], handlers = [], out = []\<rparr>"]
  by (simp add: NewService_def zap_NewExample_def init_def derive_def)

text \<open>
  Claim C9. \<open>NewHTTPServerErrorLogger\<close> returns \<open>nil\<close> for every receiver, live or not, in
  every state, and leaves the state as it is.
\<close>

theorem NewHTTPServerErrorLogger_nil:
  "HTTPDHandler_NewHTTPServerErrorLogger h s = Some (None, s)"
  by (simp add: HTTPDHandler_NewHTTPServerErrorLogger_def)

text \<open>
  Claim C10. For each of the six context-binding methods and every live handler \<open>h\<close>
  with bound fields \<open>C\<close>: binding the empty list returns a handler \<open>h'\<close> in a cell that
  did not exist before, so \<open>h'\<close> is not \<open>h\<close>; nothing is written; and after any later
  sequence of event calls every event call emits on \<open>h'\<close> the same records as on \<open>h\<close>,
  which are the records \<open>h\<close> would have emitted before, with the bound fields \<open>C\<close>.
\<close>

theorem WithContext_empty:
  assumes "WC \<in> set WithContext_methods" and "handler_context s h = Some C"
  shows "\<exists>h' s'.
      WC h [] s = Some (h', s') \<and> h' \<noteq> h \<and> \<not> h' < length (handlers s) \<and>
      h' < length (handlers s') \<and> out s' = out s \<and>
      handler_context s' h' = Some C \<and> handler_context s' h = Some C \<and>
      (\<forall>cs s'' c. run cs s' = Some s'' \<longrightarrow>
         emitted c h' s'' = emitted c h s'' \<and> emitted c h s'' = emitted c h s \<and>
         (\<exists>es. emitted c h' s'' = Some es \<and> es \<noteq> [] \<and> (\<forall>e\<in>set es. bound e = C)))"
proof -
  from WithContext_step [OF assms(1)] obtain t where
    wc': "\<forall>h ctx s C. handler_context s h = Some C \<longrightarrow>
       WC h ctx s = Some (length (handlers s), derive t (C @ map String_of ctx) s)" ..
  note wc = wc' [rule_format]
  let ?h' = "length (handlers s)"
  let ?s' = "derive t C s"
  have step: "WC h [] s = Some (?h', ?s')" using wc [OF assms(2), of "[]"] by simp
  have new: "handler_context ?s' ?h' = Some C" by (rule handler_context_derive_new)
  have old: "handler_context ?s' h = Some C" by (intro handler_context_derive_old assms(2))
  have ne: "?h' \<noteq> h" using handler_context_live [OF assms(2)] by simp
  have same: "\<forall>cs s'' c. run cs ?s' = Some s'' \<longrightarrow>
         emitted c ?h' s'' = emitted c h s'' \<and> emitted c h s'' = emitted c h s \<and>
         (\<exists>es. emitted c ?h' s'' = Some es \<and> es \<noteq> [] \<and> (\<forall>e\<in>set es. bound e = C))"
  proof (intro allI impI)
    fix cs s'' c
    assume r: "run cs ?s' = Some s''"
    have "handler_context s'' ?h' = handler_context s'' h"
      using run_context [OF r] new old by simp
    then have "emitted c ?h' s'' = emitted c h s''" by (rule emitted_cong)
    with later_events [OF new] unaffected [OF assms(2) old] r
    show "emitted c ?h' s'' = emitted c h s'' \<and> emitted c h s'' = emitted c h s \<and>
         (\<exists>es. emitted c ?h' s'' = Some es \<and> es \<noteq> [] \<and> (\<forall>e\<in>set es. bound e = C))"
      by blast
  qed
  have fresh: "\<not> ?h' < length (handlers s) \<and> ?h' < length (handlers ?s') \<and> out ?s' = out s"
    by simp
  from step ne fresh new old same show ?thesis by blast
qed

theorem WithContext_empty_witness:
  "VictorOpsHandler_WithContext \<in> set WithContext_methods \<and>
   handler_context (example VictorOpsHandler ''victorops'') 0 = Some [zap_String ''service'' ''victorops''] \<and>
   (\<exists>h' s'.
      VictorOpsHandler_WithContext 0 [] (example VictorOpsHandler ''victorops'') = Some (h', s') \<and> h' \<noteq> 0 \<and> \<not> h' < length (handlers (example VictorOpsHandler ''victorops'')) \<and>
      h' < length (handlers s') \<and> out s' = out (example VictorOpsHandler ''victorops'') \<and>
      handler_context s' h' = Some [zap_String ''service'' ''victorops''] \<and> handler_context s' 0 = Some [zap_String ''service'' ''victorops''] \<and>
      (\<forall>cs s'' c. run cs s' = Some s'' \<longrightarrow>
         emitted c h' s'' = emitted c 0 s'' \<and> emitted c 0 s'' = emitted c 0 (example VictorOpsHandler ''victorops'') \<and>
         (\<exists>es. emitted c h' s'' = Some es \<and> es \<noteq> [] \<and> (\<forall>e\<in>set es. bound e = [zap_String ''service'' ''victorops'']))))"
proof -
  have m: "VictorOpsHandler_WithContext \<in> set WithContext_methods"
    by (simp add: WithContext_methods_def)
  have c: "handler_context (example VictorOpsHandler ''victorops'') 0 = Some [zap_String ''service'' ''victorops'']"
    by (rule example_context)
  show ?thesis
    by (rule conjI [OF m conjI [OF c WithContext_empty [OF m c]]])
qed

end
